theory Spec2Isabelle
  imports Complex_Main "HOL-Library.Char_ord" "HOL-Library.List_Lexorder"
    "HOL-Library.Product_Lexorder"
begin

section \<open>Data model\<close>

text \<open>
  The pipeline of \<^verbatim>\<open>process_data.py\<close> works on pandas data frames. A frame is
  modelled as its list of column labels and its list of rows, each row holding one cell
  per column. A cell is missing (\<open>NaN\<close>, \<open>NaT\<close> and \<open>None\<close> are one value here), a
  number, a text or a timestamp. Numbers are real numbers: rounding and overflow of
  64-bit floats are outside the model, the special results of a float division
  (infinities and the undefined quotient) are inside it, as the type \<open>fval\<close>.
  Timestamps have day granularity. Strings are ASCII.
\<close>

record timestamp =
  year :: int
  month :: nat
  day :: nat

datatype cell = NA | Num real | Str string | Date timestamp

record dataframe =
  columns :: "string list"
  rows :: "cell list list"

datatype fval = NaN | Finite real | PosInf | NegInf

datatype error =
    KeyError | AttributeError | ValueError | UnboundLocalError | FileNotFoundError
  | Unsupported

text \<open>One row of a growth table: the period, the group label, the summed
  registrations and the growth in percent.\<close>

record 'p growth_row =
  period_key :: 'p
  group_value :: string
  total_registrations :: real
  growth_pct :: fval

section \<open>calculate\_growth\_metrics\<close>

text \<open>\<^verbatim>\<open>df[col]\<close>: the cells of the column labelled \<open>col\<close>. No such label is a
  \<open>KeyError\<close>; a label that occurs twice selects a frame, not a column, and the
  accessor or grouping applied to it raises (the error \<open>dup\<close> of the caller).\<close>

definition cell_at :: "cell list \<Rightarrow> nat \<Rightarrow> cell" where
  "cell_at r i = (if i < length r then r ! i else NA)"

fun index_of :: "string \<Rightarrow> string list \<Rightarrow> nat" where
  "index_of c [] = 0"
| "index_of c (x # xs) = (if x = c then 0 else Suc (index_of c xs))"

definition get_column :: "error \<Rightarrow> dataframe \<Rightarrow> string \<Rightarrow> error + cell list" where
  "get_column dup df col =
     (if col \<notin> set (columns df) then Inl KeyError
      else if count_list (columns df) col > 1 then Inl dup
      else Inr (map (\<lambda>r. cell_at r (index_of col (columns df))) (rows df)))"

text \<open>The \<^verbatim>\<open>.dt\<close> accessor exists on a column of timestamps only. A missing cell
  is a missing timestamp, as \<^verbatim>\<open>pd.to_datetime\<close> leaves it.\<close>

fun dt :: "cell \<Rightarrow> error + timestamp option" where
  "dt NA = Inr None"
| "dt (Date t) = Inr (Some t)"
| "dt _ = Inl AttributeError"

text \<open>The value column is summed and divided, so it holds numbers; the group column
  holds the text labels that \<^verbatim>\<open>clean_data\<close> leaves there. Other contents, which
  pandas may accept, are not modelled and reported as \<open>Unsupported\<close>.\<close>

fun numeric :: "cell \<Rightarrow> error + real option" where
  "numeric NA = Inr None"
| "numeric (Num x) = Inr (Some x)"
| "numeric _ = Inl Unsupported"

fun label :: "cell \<Rightarrow> error + string option" where
  "label NA = Inr None"
| "label (Str s) = Inr (Some s)"
| "label _ = Inl Unsupported"

fun sequence :: "(error + 'a) list \<Rightarrow> error + 'a list" where
  "sequence [] = Inr []"
| "sequence (x # xs) =
     (case x of Inl e \<Rightarrow> Inl e
      | Inr v \<Rightarrow> (case sequence xs of Inl e \<Rightarrow> Inl e | Inr vs \<Rightarrow> Inr (v # vs)))"

text \<open>The derived period columns: \<^verbatim>\<open>dt.year\<close>, \<^verbatim>\<open>dt.quarter\<close> and
  \<^verbatim>\<open>dt.to_period('M')\<close>.\<close>

definition quarter :: "timestamp \<Rightarrow> nat" where
  "quarter t = (month t - 1) div 3 + 1"

definition year_month :: "timestamp \<Rightarrow> int \<times> nat" where
  "year_month t = (year t, month t)"

definition year_quarter :: "timestamp \<Rightarrow> int \<times> nat" where
  "year_quarter t = (year t, quarter t)"

text \<open>\<^verbatim>\<open>groupby(keys)[value_col].sum().reset_index()\<close>: rows with a missing key are
  dropped, the remaining keys are listed once each in ascending order, and each key gets
  the sum of the values present in its rows (a missing value is skipped; the sum of no
  value is 0).\<close>

definition keyed_rows ::
  "(timestamp \<Rightarrow> 'p) \<Rightarrow> (timestamp option \<times> string option \<times> real option) list
     \<Rightarrow> (('p \<times> string) \<times> real option) list" where
  "keyed_rows per rs = [((per t, g), v). (Some t, Some g, v) \<leftarrow> rs]"

definition cell_total :: "'k \<Rightarrow> ('k \<times> real option) list \<Rightarrow> real" where
  "cell_total k kvs = sum_list [x. (k', Some x) \<leftarrow> kvs, k' = k]"

definition groupby_sum :: "('k::linorder \<times> real option) list \<Rightarrow> ('k \<times> real) list" where
  "groupby_sum kvs = map (\<lambda>k. (k, cell_total k kvs)) (sort (remdups (map fst kvs)))"

text \<open>\<^verbatim>\<open>groupby(g)[value_col].pct_change()\<close>: every row is divided by the previous
  row of its own group, in the order of the table, and 1 is subtracted. The first row of
  a group has no previous row. The division is the one of floats: a non-zero number
  over zero is an infinity, zero over zero is undefined.\<close>

fun fdiv_minus_one :: "real option \<Rightarrow> real \<Rightarrow> fval" where
  "fdiv_minus_one None cur = NaN"
| "fdiv_minus_one (Some prev) cur =
     (if prev = 0 then (if cur = 0 then NaN else if cur > 0 then PosInf else NegInf)
      else Finite (cur / prev - 1))"

fun pct_change :: "('r \<Rightarrow> 'g) \<Rightarrow> ('r \<Rightarrow> real) \<Rightarrow> ('g \<Rightarrow> real option) \<Rightarrow> 'r list \<Rightarrow> fval list" where
  "pct_change grp val prev [] = []"
| "pct_change grp val prev (r # rs) =
     fdiv_minus_one (prev (grp r)) (val r)
       # pct_change grp val (prev(grp r := Some (val r))) rs"

fun times100 :: "fval \<Rightarrow> fval" where
  "times100 (Finite x) = Finite (x * 100)"
| "times100 v = v"

definition growth_table ::
  "(('p \<times> string) \<times> real \<Rightarrow> 'g) \<Rightarrow> (('p \<times> string) \<times> real) list \<Rightarrow> 'p growth_row list" where
  "growth_table grp agg =
     map2 (\<lambda>((p, g), v) gr.
            \<lparr>period_key = p, group_value = g, total_registrations = v, growth_pct = times100 gr\<rparr>)
          agg (pct_change grp snd (\<lambda>_. None) agg)"

type_synonym growth_tables =
  "(int \<times> nat) growth_row list \<times> int growth_row list \<times> (int \<times> nat) growth_row list"

type_synonym typed_row = "timestamp option \<times> string option \<times> real option"

text \<open>The three columns the function reads, row by row: the timestamp of
  \<^verbatim>\<open>date_col\<close>, the label of \<^verbatim>\<open>group_col\<close> and the number of
  \<^verbatim>\<open>value_col\<close>. Before it groups, the function writes the columns
  \<^verbatim>\<open>year\<close>, \<^verbatim>\<open>quarter\<close>, \<^verbatim>\<open>month\<close> and \<^verbatim>\<open>year_month\<close> into its
  copy of the frame, one after the other, each from \<^verbatim>\<open>df_result[date_col].dt\<close>.
  So a date column named \<^verbatim>\<open>year\<close>, \<^verbatim>\<open>quarter\<close> or \<^verbatim>\<open>month\<close> is
  overwritten with numbers and the next \<^verbatim>\<open>.dt\<close> raises; a group or value column
  of one of the four names is the derived column, which holds no text label and no
  registrations, and is reported as \<open>Unsupported\<close>. So are a frame that has one of
  the four labels more than once, and a call that names one column in two roles.\<close>

definition derived_columns :: "string list" where
  "derived_columns = [''year'', ''quarter'', ''month'', ''year_month'']"

definition select_columns ::
  "dataframe \<Rightarrow> string \<Rightarrow> string \<Rightarrow> string \<Rightarrow> error + typed_row list" where
  "select_columns df date_col value_col group_col =
     (case get_column AttributeError df date_col of Inl e \<Rightarrow> Inl e | Inr dc \<Rightarrow>
     (case sequence (map dt dc) of Inl e \<Rightarrow> Inl e | Inr ds \<Rightarrow>
     (if date_col \<in> set [''year'', ''quarter'', ''month''] then Inl AttributeError
      else if group_col \<in> set derived_columns \<or> value_col \<in> set derived_columns
              \<or> list_ex (\<lambda>c. count_list (columns df) c > 1) derived_columns
              \<or> \<not> distinct [date_col, value_col, group_col]
        then Inl Unsupported
      else
     (case get_column ValueError df group_col of Inl e \<Rightarrow> Inl e | Inr gc \<Rightarrow>
     (case get_column ValueError df value_col of Inl e \<Rightarrow> Inl e | Inr vc \<Rightarrow>
     (case sequence (map label gc) of Inl e \<Rightarrow> Inl e | Inr gs \<Rightarrow>
     (case sequence (map numeric vc) of Inl e \<Rightarrow> Inl e | Inr vs \<Rightarrow>
        Inr (zip ds (zip gs vs)))))))))"

definition monthly_growth :: "typed_row list \<Rightarrow> (int \<times> nat) growth_row list" where
  "monthly_growth rs =
     growth_table (\<lambda>((p, g), v). g) (groupby_sum (keyed_rows year_month rs))"

definition yearly_growth :: "typed_row list \<Rightarrow> int growth_row list" where
  "yearly_growth rs =
     growth_table (\<lambda>((p, g), v). g) (groupby_sum (keyed_rows year rs))"

definition quarterly_growth :: "typed_row list \<Rightarrow> (int \<times> nat) growth_row list" where
  "quarterly_growth rs =
     growth_table (\<lambda>((p, g), v). (g, fst p)) (groupby_sum (keyed_rows year_quarter rs))"

definition calculate_growth_metrics ::
  "dataframe \<Rightarrow> string \<Rightarrow> string \<Rightarrow> string \<Rightarrow> error + growth_tables" where
  "calculate_growth_metrics df date_col value_col group_col =
     (case select_columns df date_col value_col group_col of
        Inl e \<Rightarrow> Inl e
      | Inr rs \<Rightarrow> Inr (monthly_growth rs, yearly_growth rs, quarterly_growth rs))"


section \<open>clean\_data\<close>

subsection \<open>Strings\<close>

definition upper_letters :: string where
  "upper_letters = ''ABCDEFGHIJKLMNOPQRSTUVWXYZ''"

definition lower_letters :: string where
  "lower_letters = ''abcdefghijklmnopqrstuvwxyz''"

definition upper_char :: "char \<Rightarrow> char" where
  "upper_char c = (case map_of (zip lower_letters upper_letters) c of Some d \<Rightarrow> d | None \<Rightarrow> c)"

definition lower_char :: "char \<Rightarrow> char" where
  "lower_char c = (case map_of (zip upper_letters lower_letters) c of Some d \<Rightarrow> d | None \<Rightarrow> c)"

definition upper :: "string \<Rightarrow> string" where
  "upper s = map upper_char s"

definition lower :: "string \<Rightarrow> string" where
  "lower s = map lower_char s"

text \<open>\<^verbatim>\<open>str.title\<close>: the first letter of every run of letters in upper case, the
  other letters of the run in lower case; \<open>prev\<close> tells whether the previous character
  was a letter.\<close>

fun title_from :: "bool \<Rightarrow> string \<Rightarrow> string" where
  "title_from prev [] = []"
| "title_from prev (c # cs) =
     (if c \<in> set lower_letters then (if prev then c else upper_char c) # title_from True cs
      else if c \<in> set upper_letters then (if prev then lower_char c else c) # title_from True cs
      else c # title_from False cs)"

definition title :: "string \<Rightarrow> string" where
  "title s = title_from False s"

definition is_space :: "char \<Rightarrow> bool" where
  "is_space c = (c \<in> set [CHR '' '', CHR 0x09, CHR 0x0A, CHR 0x0B, CHR 0x0C, CHR 0x0D,
                            CHR 0x1C, CHR 0x1D, CHR 0x1E, CHR 0x1F])"

definition strip :: "string \<Rightarrow> string" where
  "strip s = rev (dropWhile is_space (rev (dropWhile is_space s)))"

fun startswith :: "string \<Rightarrow> string \<Rightarrow> bool" where
  "startswith s [] = True"
| "startswith [] (p # ps) = False"
| "startswith (c # cs) (p # ps) = (c = p \<and> startswith cs ps)"

definition endswith :: "string \<Rightarrow> string \<Rightarrow> bool" where
  "endswith s suf = startswith (rev s) (rev suf)"

text \<open>\<^verbatim>\<open>sub in s\<close> on strings.\<close>

fun contains :: "string \<Rightarrow> string \<Rightarrow> bool" where
  "contains [] sub = (sub = [])"
| "contains (c # cs) sub = (startswith (c # cs) sub \<or> contains cs sub)"

text \<open>The new column labels:
  \<^verbatim>\<open>col.strip().lower().replace(' ', '_')\<close>.\<close>

definition standardize_name :: "string \<Rightarrow> string" where
  "standardize_name col =
     map (\<lambda>c. if c = CHR '' '' then CHR ''_'' else c) (lower (strip col))"

subsection \<open>Numbers\<close>

definition digit_chars :: string where
  "digit_chars = ''0123456789''"

definition digit_val :: "char \<Rightarrow> nat" where
  "digit_val c = (case map_of (zip digit_chars [0 ..< 10]) c of Some n \<Rightarrow> n | None \<Rightarrow> 0)"

definition digits_val :: "string \<Rightarrow> nat" where
  "digits_val s = foldl (\<lambda>n c. 10 * n + digit_val c) 0 s"

text \<open>\<^verbatim>\<open>str.replace(r'[^\d.]', '', regex=True)\<close> keeps the digits and the points.\<close>

definition strip_non_numeric :: "string \<Rightarrow> string" where
  "strip_non_numeric s = filter (\<lambda>c. c \<in> set digit_chars \<or> c = CHR ''.'') s"

text \<open>\<^verbatim>\<open>pd.to_numeric(..., errors='coerce')\<close> on a string of digits and points:
  a number when there is at most one point and at least one digit, missing otherwise.\<close>

definition to_numeric :: "string \<Rightarrow> cell" where
  "to_numeric s =
     (let a = takeWhile (\<lambda>c. c \<noteq> CHR ''.'') s; rest = dropWhile (\<lambda>c. c \<noteq> CHR ''.'') s
      in if rest = [] then (if a = [] then NA else Num (real (digits_val a)))
         else let b = tl rest
              in if CHR ''.'' \<in> set b \<or> (a = [] \<and> b = []) then NA
                 else Num (real (digits_val a) + real (digits_val b) / 10 ^ length b))"

text \<open>One cell of a numeric column: \<^verbatim>\<open>astype(str)\<close>, the regular expression,
  \<^verbatim>\<open>to_numeric\<close>. A missing value is the text \<^verbatim>\<open>nan\<close> and becomes missing
  again. A number loses its sign (a float printed with an exponent is outside the
  model). A timestamp is printed as \<^verbatim>\<open>YYYY-MM-DD\<close> and becomes the number of its
  eight digits.\<close>

fun numeric_cell :: "cell \<Rightarrow> cell" where
  "numeric_cell NA = NA"
| "numeric_cell (Str s) = to_numeric (strip_non_numeric s)"
| "numeric_cell (Num x) = Num \<bar>x\<bar>"
| "numeric_cell (Date t) = Num (real_of_int (year t * 10000 + int (month t) * 100 + int (day t)))"

subsection \<open>Dates\<close>

text \<open>\<^verbatim>\<open>pd.to_datetime(column, errors='coerce')\<close>. The parser of pandas is a
  parameter \<open>P\<close>: given the column and one text or number of it, the timestamp it
  reads or nothing. A missing value stays missing, a timestamp stays as it is, a value
  the parser does not read becomes missing.\<close>

type_synonym date_parser = "cell list \<Rightarrow> cell \<Rightarrow> timestamp option"

fun to_datetime :: "date_parser \<Rightarrow> cell list \<Rightarrow> cell \<Rightarrow> cell" where
  "to_datetime P col NA = NA"
| "to_datetime P col (Date t) = Date t"
| "to_datetime P col c = (case P col c of None \<Rightarrow> NA | Some t \<Rightarrow> Date t)"

subsection \<open>The frame\<close>

text \<open>\<^verbatim>\<open>df[col] = f(df[col])\<close>. With a label that occurs twice the right-hand side
  raises in each use below; where the source catches the exception
  (\<^verbatim>\<open>except: pass\<close>) the frame stays as it is.\<close>

definition convert_column ::
  "(cell list \<Rightarrow> cell \<Rightarrow> cell) \<Rightarrow> dataframe \<Rightarrow> string \<Rightarrow> dataframe" where
  "convert_column f df col =
     (if count_list (columns df) col = 1
      then let i = index_of col (columns df);
               cs = map (\<lambda>r. cell_at r i) (rows df)
           in df\<lparr>rows := map (\<lambda>r. r[i := f cs (cell_at r i)]) (rows df)\<rparr>
      else df)"

definition dropna_all :: "dataframe \<Rightarrow> dataframe" where
  "dropna_all df = df\<lparr>rows := filter (\<lambda>r. \<not> list_all (\<lambda>c. c = NA) r) (rows df)\<rparr>"

definition numeric_words :: "string list" where
  "numeric_words = [''registration'', ''value'', ''number'', ''count'', ''sales'']"

definition is_date_col :: "string \<Rightarrow> bool" where
  "is_date_col col = contains col ''date''"

definition is_numeric_col :: "string \<Rightarrow> bool" where
  "is_numeric_col col = list_ex (\<lambda>w. contains (lower col) w) numeric_words"

definition category_aliases :: "(string \<times> string) list" where
  "category_aliases =
     [(''TWO WHEELER'', ''2W''), (''THREE WHEELER'', ''3W''), (''FOUR WHEELER'', ''4W''),
      (''2 WHEELER'', ''2W''), (''3 WHEELER'', ''3W''), (''4 WHEELER'', ''4W'')]"

definition manufacturer_aliases :: "(string \<times> string) list" where
  "manufacturer_aliases =
     [(''Hero'', ''Hero MotoCorp''), (''Bajaj'', ''Bajaj Auto''), (''Tata'', ''Tata Motors''),
      (''Mahindra'', ''Mahindra & Mahindra''),
      (''Mahindra And Mahindra'', ''Mahindra & Mahindra'')]"

text \<open>\<^verbatim>\<open>Series.replace(dict)\<close>: a value equal to a key becomes the key's value.\<close>

definition replace_value :: "(string \<times> string) list \<Rightarrow> string \<Rightarrow> string" where
  "replace_value aliases s = (case map_of aliases s of Some t \<Rightarrow> t | None \<Rightarrow> s)"

definition normalize_category :: "string \<Rightarrow> string" where
  "normalize_category s = replace_value category_aliases (upper s)"

definition normalize_manufacturer :: "string \<Rightarrow> string" where
  "normalize_manufacturer s = replace_value manufacturer_aliases (title s)"

text \<open>\<^verbatim>\<open>df[col] = df[col].str.f()\<close> followed by the replacement, under the guard
  \<^verbatim>\<open>if col in df.columns\<close>. The \<^verbatim>\<open>.str\<close> accessor raises on a frame (a
  label that occurs twice) and on a column without any text; on a column with text it
  maps a text to its image and everything else to a missing value. On a frame without
  rows the accessor depends on the type pandas keeps for the empty column, which the
  frame of the model does not record: that case is \<open>Unsupported\<close>.\<close>

fun str_cell :: "(string \<Rightarrow> string) \<Rightarrow> cell \<Rightarrow> cell" where
  "str_cell f (Str s) = Str (f s)"
| "str_cell f _ = NA"

fun is_text :: "cell \<Rightarrow> bool" where
  "is_text (Str s) = True"
| "is_text _ = False"

definition standardize_labels ::
  "(string \<Rightarrow> string) \<Rightarrow> string \<Rightarrow> dataframe \<Rightarrow> error + dataframe" where
  "standardize_labels f col df =
     (if col \<notin> set (columns df) then Inr df
      else if count_list (columns df) col > 1 then Inl AttributeError
      else if rows df = [] then Inl Unsupported
      else if \<not> list_ex (\<lambda>r. is_text (cell_at r (index_of col (columns df)))) (rows df)
        then Inl AttributeError
      else Inr (convert_column (\<lambda>cs. str_cell f) df col))"

definition clean_data :: "date_parser \<Rightarrow> dataframe \<Rightarrow> error + dataframe" where
  "clean_data P df =
     (let df1 = dropna_all df;
          df2 = df1\<lparr>columns := map standardize_name (columns df1)\<rparr>;
          df3 = foldl (convert_column (to_datetime P)) df2 (filter is_date_col (columns df2));
          df4 = foldl (convert_column (\<lambda>cs. numeric_cell)) df3
                  (filter is_numeric_col (columns df3))
      in case standardize_labels normalize_category ''category'' df4 of
           Inl e \<Rightarrow> Inl e
         | Inr df5 \<Rightarrow> standardize_labels normalize_manufacturer ''manufacturer'' df5)"

text \<open>A parser for the examples: it reads the ISO dates \<^verbatim>\<open>YYYY-MM-DD\<close> of the
  calendar and nothing else.\<close>

definition days_in_month :: "int \<Rightarrow> nat \<Rightarrow> nat" where
  "days_in_month y m =
     (if m = 2 then (if y mod 4 = 0 \<and> (y mod 100 \<noteq> 0 \<or> y mod 400 = 0) then 29 else 28)
      else if m \<in> set [4, 6, 9, 11] then 30 else 31)"

fun iso_date :: date_parser where
  "iso_date col (Str s) =
     (if length s = 10 \<and> s ! 4 = CHR ''-'' \<and> s ! 7 = CHR ''-''
         \<and> list_all (\<lambda>c. c \<in> set digit_chars) (take 4 s @ take 2 (drop 5 s) @ drop 8 s)
      then let y = int (digits_val (take 4 s)); m = digits_val (take 2 (drop 5 s));
               d = digits_val (drop 8 s)
           in if 1 \<le> m \<and> m \<le> 12 \<and> 1 \<le> d \<and> d \<le> days_in_month y m
              then Some \<lparr>year = y, month = m, day = d\<rparr> else None
      else None)"
| "iso_date col _ = None"


section \<open>load\_data\<close>

text \<open>The data directory is the list of its entries: the file name and what
  \<^verbatim>\<open>pd.read_csv\<close> returns for the file (\<open>None\<close>: it raises). A directory that
  does not exist is \<open>None\<close>: \<^verbatim>\<open>os.listdir\<close> raises. The lines printed are kept as
  messages.\<close>

type_synonym directory = "(string \<times> dataframe option) list"

datatype message =
    NoDataFilesFound | Loaded string | ErrorLoading string | NoDataToProcess
  | SavedCleanedData string | DataSavedToSqlite | SavedGrowthMetrics string

text \<open>\<^verbatim>\<open>pd.concat(dfs, ignore_index=True)\<close>: the columns of all frames in the order
  of their first appearance, the rows of all frames in order, a cell missing where the
  frame of the row does not have the column.\<close>

definition concat_frames :: "dataframe list \<Rightarrow> dataframe" where
  "concat_frames dfs =
     (let cols = rev (remdups (rev (concat (map columns dfs))))
      in \<lparr>columns = cols,
          rows = concat (map (\<lambda>d. map (\<lambda>r. map (\<lambda>c. if c \<in> set (columns d)
                                                        then cell_at r (index_of c (columns d))
                                                        else NA) cols)
                                       (rows d)) dfs)\<rparr>)"

definition load_data :: "directory option \<Rightarrow> message list \<times> (error + dataframe option)" where
  "load_data data_dir =
     (case data_dir of
        None \<Rightarrow> ([], Inl FileNotFoundError)
      | Some entries \<Rightarrow>
          let all_files = filter (\<lambda>(f, r). endswith f ''.csv'') entries
          in if all_files = [] then ([NoDataFilesFound], Inr None)
             else let printed = map (\<lambda>(f, r). case r of None \<Rightarrow> ErrorLoading f
                                                | Some d \<Rightarrow> Loaded f) all_files;
                      dfs = [d. (f, Some d) \<leftarrow> all_files]
                  in if dfs = [] then (printed, Inr None)
                     else (printed, Inr (Some (concat_frames dfs))))"

section \<open>save\_to\_sqlite and process\_data\<close>

text \<open>The database and the output directory hold named relations. Writing a relation
  with \<^verbatim>\<open>if_exists='replace'\<close> replaces the relation of that name; writing is taken
  to succeed (storage failures are outside the model).\<close>

datatype relation =
    Records dataframe
  | Monthly "(int \<times> nat) growth_row list"
  | Yearly "int growth_row list"
  | Quarterly "(int \<times> nat) growth_row list"

type_synonym store = "(string \<times> relation) list"

record world =
  db :: store
  csv_files :: store
  printed :: "message list"

fun to_sql :: "string \<Rightarrow> relation \<Rightarrow> store \<Rightarrow> store" where
  "to_sql n r [] = [(n, r)]"
| "to_sql n r ((k, v) # st) = (if k = n then (n, r) # st else (k, v) # to_sql n r st)"

definition read_sql :: "store \<Rightarrow> string \<Rightarrow> relation option" where
  "read_sql st n = map_of st n"

text \<open>The block that both functions repeat for \<^verbatim>\<open>category\<close> and for
  \<^verbatim>\<open>manufacturer\<close>: under the guard \<^verbatim>\<open>if group_col in df.columns\<close>, compute the
  three tables and write them under the names \<open>names\<close>. The result holds the tables
  when the block ran, so the caller knows whether its variables are bound.\<close>

definition growth_block ::
  "(string \<Rightarrow> string) \<Rightarrow> string \<Rightarrow> dataframe \<Rightarrow> store \<Rightarrow> store \<times> (error + growth_tables option)" where
  "growth_block name group_col df st =
     (if group_col \<in> set (columns df)
      then (case calculate_growth_metrics df ''date'' ''registrations'' group_col of
              Inl e \<Rightarrow> (st, Inl e)
            | Inr (m, y, q) \<Rightarrow>
                (to_sql (name ''quarterly'') (Quarterly q)
                   (to_sql (name ''yearly'') (Yearly y)
                      (to_sql (name ''monthly'') (Monthly m) st)),
                 Inr (Some (m, y, q))))
      else (st, Inr None))"

definition save_to_sqlite :: "dataframe \<Rightarrow> world \<Rightarrow> world \<times> (error + unit)" where
  "save_to_sqlite df w =
     (let st1 = to_sql ''vehicle_registrations'' (Records df) (db w)
      in case growth_block (\<lambda>per. per @ ''_category_growth'') ''category'' df st1 of
           (st2, Inl e) \<Rightarrow> (w\<lparr>db := st2\<rparr>, Inl e)
         | (st2, Inr c) \<Rightarrow>
        (case growth_block (\<lambda>per. per @ ''_manufacturer_growth'') ''manufacturer'' df st2 of
           (st3, Inl e) \<Rightarrow> (w\<lparr>db := st3\<rparr>, Inl e)
         | (st3, Inr m) \<Rightarrow>
             (w\<lparr>db := st3, printed := printed w @ [DataSavedToSqlite]\<rparr>, Inr ())))"

type_synonym pipeline_result = "dataframe \<times> growth_tables \<times> growth_tables"

text \<open>The last line of \<^verbatim>\<open>process_data\<close> reads the six growth tables, which
  are bound only where the two guarded blocks ran.\<close>

definition return_tables ::
  "dataframe \<Rightarrow> growth_tables option \<Rightarrow> growth_tables option \<Rightarrow> error + pipeline_result option" where
  "return_tables df_clean c m =
     (case (c, m) of
        (Some ct, Some mt) \<Rightarrow> Inr (Some (df_clean, ct, mt))
      | _ \<Rightarrow> Inl UnboundLocalError)"

definition growth_message :: "string \<Rightarrow> growth_tables option \<Rightarrow> message list" where
  "growth_message group_col t = (if t = None then [] else [SavedGrowthMetrics group_col])"

text \<open>The two guarded blocks of \<^verbatim>\<open>process_data\<close> that write the growth tables as
  files, and the return.\<close>

definition write_growth_files ::
  "(string \<Rightarrow> string) \<Rightarrow> dataframe \<Rightarrow> world \<Rightarrow> world \<times> (error + pipeline_result option)" where
  "write_growth_files file df_clean w2 =
     (case growth_block (\<lambda>per. file (per @ ''_category_growth'')) ''category'' df_clean
             (csv_files w2) of
        (f3, Inl e) \<Rightarrow> (w2\<lparr>csv_files := f3\<rparr>, Inl e)
      | (f3, Inr c) \<Rightarrow>
         (case growth_block (\<lambda>per. file (per @ ''_manufacturer_growth'')) ''manufacturer''
                 df_clean f3 of
            (f4, Inl e) \<Rightarrow>
              (w2\<lparr>csv_files := f4, printed := printed w2 @ growth_message ''category'' c\<rparr>,
               Inl e)
          | (f4, Inr m) \<Rightarrow>
              (w2\<lparr>csv_files := f4,
                  printed := printed w2 @ growth_message ''category'' c
                               @ growth_message ''manufacturer'' m\<rparr>,
               return_tables df_clean c m)))"

text \<open>\<^verbatim>\<open>process_data\<close>, with the state of the data directory, the parser of
  \<^verbatim>\<open>to_datetime\<close> and the text \<open>timestamp\<close> of \<^verbatim>\<open>datetime.now()\<close> as inputs.
  The function returns \<^verbatim>\<open>None\<close> without data. Creating the output directory
  writes no relation and is left out.\<close>

definition output_file :: "string \<Rightarrow> string \<Rightarrow> string \<Rightarrow> string" where
  "output_file output_dir timestamp n = output_dir @ ''/'' @ n @ ''_'' @ timestamp @ ''.csv''"

definition process_data ::
  "date_parser \<Rightarrow> directory option \<Rightarrow> string \<Rightarrow> string \<Rightarrow> world
     \<Rightarrow> world \<times> (error + pipeline_result option)" where
  "process_data P data_dir output_dir timestamp w =
     (case load_data data_dir of
        (msgs, Inl e) \<Rightarrow> (w\<lparr>printed := printed w @ msgs\<rparr>, Inl e)
      | (msgs, Inr None) \<Rightarrow> (w\<lparr>printed := printed w @ msgs @ [NoDataToProcess]\<rparr>, Inr None)
      | (msgs, Inr (Some df)) \<Rightarrow>
         (case clean_data P df of
            Inl e \<Rightarrow> (w\<lparr>printed := printed w @ msgs\<rparr>, Inl e)
          | Inr df_clean \<Rightarrow>
             (let file = output_file output_dir timestamp;
                  w1 = w\<lparr>csv_files := to_sql (file ''cleaned_data'') (Records df_clean)
                                        (csv_files w),
                         printed := printed w @ msgs @ [SavedCleanedData (file ''cleaned_data'')]\<rparr>
              in (case save_to_sqlite df_clean w1 of
                    (w2, Inl e) \<Rightarrow> (w2, Inl e)
                  | (w2, Inr u) \<Rightarrow> write_growth_files file df_clean w2))))"

section \<open>Notions used in the statements\<close>

text \<open>The growth column of one group, read off the totals of the group in table order:
  the first total has no predecessor, every later one is divided by the one before.\<close>

fun chain :: "real option \<Rightarrow> real list \<Rightarrow> fval list" where
  "chain p [] = []"
| "chain p (v # vs) = fdiv_minus_one p v # chain (Some v) vs"

definition krow :: "'p growth_row \<Rightarrow> ('p \<times> string) \<times> real" where
  "krow r = ((period_key r, group_value r), total_registrations r)"

definition cell_key :: "'p growth_row \<Rightarrow> 'p \<times> string" where
  "cell_key r = (period_key r, group_value r)"

text \<open>The rows of one group in a growth table, and the rows of one group and year in
  the quarterly table.\<close>

definition of_group :: "string \<Rightarrow> 'p growth_row list \<Rightarrow> 'p growth_row list" where
  "of_group g t = filter (\<lambda>r. group_value r = g) t"

definition of_group_year ::
  "string \<Rightarrow> int \<Rightarrow> (int \<times> nat) growth_row list \<Rightarrow> (int \<times> nat) growth_row list" where
  "of_group_year g y t = filter (\<lambda>r. group_value r = g \<and> fst (period_key r) = y) t"

text \<open>The growth the specification asks for:
  \<^verbatim>\<open>(current_total - previous_total) / previous_total * 100\<close>.\<close>

definition spec_growth :: "real \<Rightarrow> real \<Rightarrow> fval" where
  "spec_growth previous_total current_total =
     Finite ((current_total - previous_total) / previous_total * 100)"

text \<open>The registrations present in the input rows of one period and group.\<close>

definition rows_in_cell :: "(timestamp \<Rightarrow> 'p) \<Rightarrow> 'p \<Rightarrow> string \<Rightarrow> typed_row list \<Rightarrow> real list" where
  "rows_in_cell per p g rs = [x. (Some t, Some g', Some x) \<leftarrow> rs, per t = p, g' = g]"

text \<open>The periods of the input rows of one group.\<close>

definition input_periods :: "(timestamp \<Rightarrow> 'p) \<Rightarrow> string \<Rightarrow> typed_row list \<Rightarrow> 'p list" where
  "input_periods per g rs = [per t. (Some t, Some g', v) \<leftarrow> rs, g' = g]"

text \<open>Zero-filling: every missing registration replaced by 0.\<close>

definition zero_fill :: "typed_row list \<Rightarrow> typed_row list" where
  "zero_fill rs = map (\<lambda>(t, g, v). (t, g, Some (case v of None \<Rightarrow> 0 | Some x \<Rightarrow> x))) rs"

definition ts :: "int \<Rightarrow> nat \<Rightarrow> nat \<Rightarrow> cell" where
  "ts y m d = Date \<lparr>year = y, month = m, day = d\<rparr>"

definition growth_row :: "'p \<Rightarrow> string \<Rightarrow> real \<Rightarrow> fval \<Rightarrow> 'p growth_row" where
  "growth_row p g v gr =
     \<lparr>period_key = p, group_value = g, total_registrations = v, growth_pct = gr\<rparr>"

text \<open>A list of rows of one group whose growth column is the chain of its totals, times
  100.\<close>

definition chained :: "'p growth_row list \<Rightarrow> bool" where
  "chained t = (map growth_pct t = map times100 (chain None (map total_registrations t)))"

subsection \<open>Example inputs\<close>

text \<open>Category 2W with 100 registrations in December 2022, 150 in January 2023 and
  none in February 2023, beside one row of category 3W.\<close>

definition two_years :: dataframe where
  "two_years =
     \<lparr>columns = [''date'', ''category'', ''registrations''],
      rows = [[ts 2022 12 15, Str ''2W'', Num 100],
              [ts 2023 1 15, Str ''2W'', Num 150],
              [ts 2023 1 20, Str ''3W'', Num 7],
              [ts 2023 2 15, Str ''2W'', Num 0]]\<rparr>"

text \<open>The rows of that frame as \<^verbatim>\<open>calculate_growth_metrics\<close> reads them.\<close>

definition two_years_rows :: "typed_row list" where
  "two_years_rows =
     [(Some \<lparr>year = 2022, month = 12, day = 15\<rparr>, Some ''2W'', Some 100),
      (Some \<lparr>year = 2023, month = 1, day = 15\<rparr>, Some ''2W'', Some 150),
      (Some \<lparr>year = 2023, month = 1, day = 20\<rparr>, Some ''3W'', Some 7),
      (Some \<lparr>year = 2023, month = 2, day = 15\<rparr>, Some ''2W'', Some 0)]"

text \<open>Category 2W without registrations in June 2022 and in January 2023, and with 150
  in April 2023: in each of the three tables a total of zero precedes the total 150.\<close>

definition zero_previous :: dataframe where
  "zero_previous =
     \<lparr>columns = [''date'', ''category'', ''registrations''],
      rows = [[ts 2022 6 15, Str ''2W'', Num 0],
              [ts 2023 1 15, Str ''2W'', Num 0],
              [ts 2023 4 15, Str ''2W'', Num 150]]\<rparr>"

definition zero_previous_rows :: "typed_row list" where
  "zero_previous_rows =
     [(Some \<lparr>year = 2022, month = 6, day = 15\<rparr>, Some ''2W'', Some 0),
      (Some \<lparr>year = 2023, month = 1, day = 15\<rparr>, Some ''2W'', Some 0),
      (Some \<lparr>year = 2023, month = 4, day = 15\<rparr>, Some ''2W'', Some 150)]"



text \<open>Two rows of January 2023, one of them without registrations; the same frame
  with the missing value filled with zero.\<close>

definition with_missing :: dataframe where
  "with_missing =
     \<lparr>columns = [''date'', ''category'', ''registrations''],
      rows = [[ts 2023 1 15, Str ''2W'', Num 100],
              [ts 2023 1 20, Str ''2W'', NA]]\<rparr>"

definition with_zero :: dataframe where
  "with_zero =
     \<lparr>columns = [''date'', ''category'', ''registrations''],
      rows = [[ts 2023 1 15, Str ''2W'', Num 100],
              [ts 2023 1 20, Str ''2W'', Num 0]]\<rparr>"

definition with_missing_rows :: "typed_row list" where
  "with_missing_rows =
     [(Some \<lparr>year = 2023, month = 1, day = 15\<rparr>, Some ''2W'', Some 100),
      (Some \<lparr>year = 2023, month = 1, day = 20\<rparr>, Some ''2W'', None)]"

text \<open>What float division gives against a previous total of zero.\<close>

definition over_zero :: "real \<Rightarrow> fval" where
  "over_zero cur = (if cur = 0 then NaN else if cur > 0 then PosInf else NegInf)"

text \<open>A source file with a date and a count only, as \<^verbatim>\<open>pd.read_csv\<close> returns it,
  and the state before the first run.\<close>

definition date_count_file :: dataframe where
  "date_count_file =
     \<lparr>columns = [''Date'', ''Count''],
      rows = [[Str ''2023-01-15'', Num 10], [Str ''2023-02-15'', Num 20]]\<rparr>"

definition date_count_clean :: dataframe where
  "date_count_clean =
     \<lparr>columns = [''date'', ''count''],
      rows = [[ts 2023 1 15, Num 10], [ts 2023 2 15, Num 20]]\<rparr>"

definition empty_world :: world where
  "empty_world = \<lparr>db = [], csv_files = [], printed = []\<rparr>"

text \<open>The names of the growth relations of one group column.\<close>

definition growth_relations :: "string \<Rightarrow> string list" where
  "growth_relations group_col =
     map (\<lambda>per. per @ ''_'' @ group_col @ ''_growth'') [''monthly'', ''yearly'', ''quarterly'']"

text \<open>Two rows of January 2023 for one category under two spellings, as read from a
  file, and the table \<^verbatim>\<open>clean_data\<close> makes of them.\<close>

definition alias_rows :: dataframe where
  "alias_rows =
     \<lparr>columns = [''Date'', ''Category'', ''Registrations''],
      rows = [[Str ''2023-01-15'', Str ''TWO WHEELER'', Num 100],
              [Str ''2023-01-20'', Str ''2W'', Num 50]]\<rparr>"

definition alias_rows_clean :: dataframe where
  "alias_rows_clean =
     \<lparr>columns = [''date'', ''category'', ''registrations''],
      rows = [[ts 2023 1 15, Str ''2W'', Num 100],
              [ts 2023 1 20, Str ''2W'', Num 50]]\<rparr>"

text \<open>One row of manufacturer Hero as read from a file, the table \<^verbatim>\<open>clean_data\<close>
  makes of it, and that table cleaned once more. Then a second row of Hero from a later
  file, and the table \<^verbatim>\<open>clean_data\<close> makes of the cleaned first row together with
  the new row.\<close>

definition hero_raw :: dataframe where
  "hero_raw =
     \<lparr>columns = [''date'', ''manufacturer'', ''registrations''],
      rows = [[Str ''2023-01-15'', Str ''Hero'', Num 100]]\<rparr>"

definition hero_clean :: dataframe where
  "hero_clean =
     \<lparr>columns = [''date'', ''manufacturer'', ''registrations''],
      rows = [[ts 2023 1 15, Str ''Hero MotoCorp'', Num 100]]\<rparr>"

definition hero_recleaned :: dataframe where
  "hero_recleaned =
     \<lparr>columns = [''date'', ''manufacturer'', ''registrations''],
      rows = [[ts 2023 1 15, Str ''Hero Motocorp'', Num 100]]\<rparr>"

definition hero_next :: dataframe where
  "hero_next =
     \<lparr>columns = [''date'', ''manufacturer'', ''registrations''],
      rows = [[Str ''2023-01-20'', Str ''Hero'', Num 50]]\<rparr>"

definition hero_merged :: dataframe where
  "hero_merged =
     \<lparr>columns = [''date'', ''manufacturer'', ''registrations''],
      rows = [[ts 2023 1 15, Str ''Hero Motocorp'', Num 100],
              [ts 2023 1 20, Str ''Hero MotoCorp'', Num 50]]\<rparr>"





section \<open>Properties of the growth tables\<close>

lemma length_pct_change: "length (pct_change grp val prev rs) = length rs"
  by (induction rs arbitrary: prev) auto

lemma pct_change_filter:
  "map snd (filter (\<lambda>z. grp (fst z) = k) (zip rs (pct_change grp val prev rs)))
     = chain (prev k) (map val (filter (\<lambda>r. grp r = k) rs))"
  by (induction rs arbitrary: prev) auto

lemma map_fst_filter_zip:
  "length ys = length xs \<Longrightarrow> map fst (filter (\<lambda>z. P (fst z)) (zip xs ys)) = filter P xs"
  by (induction xs ys rule: list_induct2') auto

lemma length_chain: "length (chain p vs) = length vs"
  by (induction vs arbitrary: p) auto

lemma chain_Suc:
  "Suc i < length vs \<Longrightarrow> chain p vs ! Suc i = fdiv_minus_one (Some (vs ! i)) (vs ! Suc i)"
proof (induction vs arbitrary: i p)
  case Nil
  then show ?case by simp
next
  case (Cons v vs)
  show ?case
  proof (cases i)
    case 0
    with Cons.prems show ?thesis by (cases vs) auto
  next
    case (Suc j)
    with Cons show ?thesis by simp
  qed
qed

lemma growth_table_chain:
  "map growth_pct (filter (\<lambda>r. grp (krow r) = k) (growth_table grp agg))
     = map times100 (chain None
         (map total_registrations (filter (\<lambda>r. grp (krow r) = k) (growth_table grp agg))))"
proof -
  define mk :: "(('a \<times> string) \<times> real) \<times> fval \<Rightarrow> 'a growth_row" where
    "mk = (\<lambda>z. \<lparr>period_key = fst (fst (fst z)), group_value = snd (fst (fst z)),
                 total_registrations = snd (fst z), growth_pct = times100 (snd z)\<rparr>)"
  define zs where "zs = zip agg (pct_change grp snd (\<lambda>_. None) agg)"
  have gt: "growth_table grp agg = map mk zs"
    by (simp add: growth_table_def mk_def zs_def split_def)
  have k: "\<And>z. krow (mk z) = fst z" by (simp add: krow_def mk_def)
  have f: "filter (\<lambda>r. grp (krow r) = k) (map mk zs) = map mk (filter (\<lambda>z. grp (fst z) = k) zs)"
    by (simp add: filter_map o_def k)
  have a: "map growth_pct (map mk (filter (\<lambda>z. grp (fst z) = k) zs))
           = map times100 (map snd (filter (\<lambda>z. grp (fst z) = k) zs))"
    by (simp add: mk_def)
  have b: "map total_registrations (map mk (filter (\<lambda>z. grp (fst z) = k) zs))
           = map snd (map fst (filter (\<lambda>z. grp (fst z) = k) zs))"
    by (simp add: mk_def)
  have c: "map fst (filter (\<lambda>z. grp (fst z) = k) zs) = filter (\<lambda>r. grp r = k) agg"
    unfolding zs_def by (rule map_fst_filter_zip) (simp add: length_pct_change)
  have d: "map snd (filter (\<lambda>z. grp (fst z) = k) zs) = chain None (map snd (filter (\<lambda>r. grp r = k) agg))"
    unfolding zs_def by (simp add: pct_change_filter)
  show ?thesis
    unfolding gt f a b c d ..
qed

lemma cell_total_keyed:
  "cell_total (p, g) (keyed_rows per rs) = sum_list (rows_in_cell per p g rs)"
  by (induction rs) (auto simp: cell_total_def keyed_rows_def rows_in_cell_def split: option.splits)

lemma keys_groupby_sum: "map fst (groupby_sum kvs) = sort (remdups (map fst kvs))"
  by (simp add: groupby_sum_def o_def)

lemma strict_sorted_groupby_sum: "sorted_wrt (<) (map fst (groupby_sum kvs))"
  by (simp add: keys_groupby_sum strict_sorted_iff)

lemma krow_growth_table: "map krow (growth_table grp agg) = agg"
proof -
  have "length (pct_change grp snd (\<lambda>_. None) agg) = length agg"
    by (rule length_pct_change)
  then have "map fst (zip agg (pct_change grp snd (\<lambda>_. None) agg)) = agg"
    by simp
  moreover have "map krow (growth_table grp agg) = map fst (zip agg (pct_change grp snd (\<lambda>_. None) agg))"
    by (simp add: growth_table_def krow_def split_def)
  ultimately show ?thesis by simp
qed

lemma cell_key_growth_table: "map cell_key (growth_table grp agg) = map fst agg"
proof -
  have "map cell_key (growth_table grp agg) = map fst (map krow (growth_table grp agg))"
    by (simp add: cell_key_def krow_def)
  then show ?thesis by (simp add: krow_growth_table)
qed

lemma keyed_rows_Nil: "keyed_rows per [] = []"
  by (simp add: keyed_rows_def)

lemma keyed_rows_Cons:
  "keyed_rows per (r # rs) =
     (case r of (Some t, Some g, v) \<Rightarrow> [((per t, g), v)] | _ \<Rightarrow> []) @ keyed_rows per rs"
  by (simp add: keyed_rows_def split: option.splits prod.splits)

lemma set_keyed_rows:
  "set (map fst (keyed_rows per rs)) = {(per t, g) | t g v. (Some t, Some g, v) \<in> set rs}"
proof (induction rs)
  case Nil
  show ?case by (simp add: keyed_rows_Nil)
next
  case (Cons r rs)
  obtain t g v where r: "r = (t, g, v)" by (cases r) auto
  show ?case
  proof (cases "\<exists>t' g'. t = Some t' \<and> g = Some g'")
    case True
    then obtain t' g' where "t = Some t'" "g = Some g'" by blast
    with Cons r show ?thesis
      by (auto simp: keyed_rows_Cons)
  next
    case False
    with Cons r show ?thesis
      by (auto simp: keyed_rows_Cons split: option.splits)
  qed
qed

lemma growth_table_total:
  assumes "r \<in> set (growth_table grp (groupby_sum (keyed_rows per rs)))"
  shows "total_registrations r = sum_list (rows_in_cell per (period_key r) (group_value r) rs)"
proof -
  from assms have "krow r \<in> set (map krow (growth_table grp (groupby_sum (keyed_rows per rs))))"
    by simp
  then have "krow r \<in> set (groupby_sum (keyed_rows per rs))"
    by (simp only: krow_growth_table)
  then have "snd (krow r) = cell_total (fst (krow r)) (keyed_rows per rs)"
    by (auto simp: groupby_sum_def)
  then show ?thesis
    by (simp add: krow_def cell_total_keyed)
qed

lemma growth_table_cells:
  "set (map cell_key (growth_table grp (groupby_sum (keyed_rows per rs))))
     = {(per t, g) | t g v. (Some t, Some g, v) \<in> set rs}"
  by (simp only: cell_key_growth_table keys_groupby_sum set_sort set_remdups set_keyed_rows)

lemma growth_table_distinct:
  "distinct (map cell_key (growth_table grp (groupby_sum kvs)))"
  by (simp only: cell_key_growth_table keys_groupby_sum distinct_sort distinct_remdups)

lemma growth_table_sorted:
  "sorted_wrt (<) (map cell_key (growth_table grp (groupby_sum kvs)))"
  by (simp only: cell_key_growth_table strict_sorted_groupby_sum)

lemma group_periods_increasing:
  "sorted_wrt (<) (map period_key
      (filter (\<lambda>r. group_value r = g) (growth_table grp (groupby_sum kvs))))"
proof -
  let ?T = "growth_table grp (groupby_sum kvs)"
  have "sorted_wrt (\<lambda>x y. cell_key x < cell_key y) ?T"
    using growth_table_sorted [of grp kvs] by (simp add: sorted_wrt_map)
  then have "sorted_wrt (\<lambda>x y. cell_key x < cell_key y) (filter (\<lambda>r. group_value r = g) ?T)"
    by (rule sorted_wrt_filter)
  then have "sorted_wrt (\<lambda>x y. period_key x < period_key y) (filter (\<lambda>r. group_value r = g) ?T)"
    by (rule sorted_wrt_mono_rel [rotated]) (auto simp: cell_key_def)
  then show ?thesis by (simp add: sorted_wrt_map)
qed

lemma keyed_rows_zero_fill_keys:
  "map fst (keyed_rows per (zero_fill rs)) = map fst (keyed_rows per rs)"
  by (induction rs) (auto simp: keyed_rows_def zero_fill_def split: option.splits)

lemma cell_total_zero_fill:
  "cell_total k (keyed_rows per (zero_fill rs)) = cell_total k (keyed_rows per rs)"
  by (induction rs) (auto simp: keyed_rows_def zero_fill_def cell_total_def split: option.splits)

lemma groupby_sum_zero_fill:
  "groupby_sum (keyed_rows per (zero_fill rs)) = groupby_sum (keyed_rows per rs)"
  by (simp add: groupby_sum_def keyed_rows_zero_fill_keys cell_total_zero_fill)

lemma input_periods_Nil: "input_periods per g [] = []"
  by (simp add: input_periods_def)

lemma input_periods_Cons:
  "input_periods per g ((t, g', v) # rs) =
     (case t of None \<Rightarrow> []
      | Some t' \<Rightarrow> (case g' of None \<Rightarrow> [] | Some g'' \<Rightarrow> (if g'' = g then [per t'] else [])))
       @ input_periods per g rs"
  by (simp add: input_periods_def split: option.splits)

lemma set_input_periods_rows:
  "set (input_periods per g rs) = {per t | t v. (Some t, Some g, v) \<in> set rs}"
proof (induction rs)
  case Nil
  show ?case by (simp add: input_periods_Nil)
next
  case (Cons r rs)
  obtain t g' v where r: "r = (t, g', v)" by (cases r) auto
  show ?case
    unfolding r input_periods_Cons set_append Cons.IH
    by (cases t; cases g') auto
qed

lemma set_input_periods:
  "set (input_periods per g rs) = {p. (p, g) \<in> set (map fst (keyed_rows per rs))}"
  unfolding set_input_periods_rows set_keyed_rows by auto

lemma period_in_group:
  "p \<in> set (map period_key (filter (\<lambda>r. group_value r = g) t))
     \<longleftrightarrow> (p, g) \<in> set (map cell_key t)"
  by (induction t) (auto simp: cell_key_def)

lemma group_periods_set:
  "set (map period_key
         (filter (\<lambda>r. group_value r = g) (growth_table grp (groupby_sum (keyed_rows per rs)))))
     = set (input_periods per g rs)"
proof -
  have "set (map cell_key (growth_table grp (groupby_sum (keyed_rows per rs))))
          = set (map fst (keyed_rows per rs))"
    by (simp only: cell_key_growth_table keys_groupby_sum set_sort set_remdups)
  then show ?thesis
    using period_in_group [of _ g "growth_table grp (groupby_sum (keyed_rows per rs))"]
    by (auto simp only: set_input_periods mem_Collect_eq)
qed

lemma group_periods_list:
  "map period_key
     (filter (\<lambda>r. group_value r = g) (growth_table grp (groupby_sum (keyed_rows per rs))))
     = sort (remdups (input_periods per g rs))"
proof (rule sorted_distinct_set_unique)
  let ?l = "map period_key
     (filter (\<lambda>r. group_value r = g) (growth_table grp (groupby_sum (keyed_rows per rs))))"
  have s: "sorted_wrt (<) ?l" by (rule group_periods_increasing)
  show "sorted ?l" using s by (simp add: strict_sorted_iff)
  show "distinct ?l" using s by (simp add: strict_sorted_iff)
  show "sorted (sort (remdups (input_periods per g rs)))" by simp
  show "distinct (sort (remdups (input_periods per g rs)))" by simp
  show "set ?l = set (sort (remdups (input_periods per g rs)))"
    by (simp only: group_periods_set set_sort set_remdups)
qed

lemma group_totals:
  assumes "r \<in> set (filter (\<lambda>r. group_value r = g)
                      (growth_table grp (groupby_sum (keyed_rows per rs))))"
  shows "total_registrations r = sum_list (rows_in_cell per (period_key r) g rs)"
proof -
  from assms have "r \<in> set (growth_table grp (groupby_sum (keyed_rows per rs)))"
    and "group_value r = g" by simp_all
  with growth_table_total [of r grp per rs] show ?thesis by simp
qed

lemma group_year_periods_list:
  "map period_key
     (filter (\<lambda>r. group_value r = g \<and> fst (period_key r) = y)
        (growth_table grp (groupby_sum (keyed_rows per rs))))
     = filter (\<lambda>p. fst p = y) (sort (remdups (input_periods per g rs)))"
proof -
  let ?t = "growth_table grp (groupby_sum (keyed_rows per rs))"
  have "filter (\<lambda>r. group_value r = g \<and> fst (period_key r) = y) ?t
          = filter ((\<lambda>p. fst p = y) \<circ> period_key) (filter (\<lambda>r. group_value r = g) ?t)"
    by (simp add: comp_def)
  then have "map period_key (filter (\<lambda>r. group_value r = g \<and> fst (period_key r) = y) ?t)
          = filter (\<lambda>p. fst p = y) (map period_key (filter (\<lambda>r. group_value r = g) ?t))"
    by (simp only: filter_map)
  then show ?thesis by (simp only: group_periods_list)
qed

lemma group_year_totals:
  assumes "r \<in> set (filter (\<lambda>r. group_value r = g \<and> fst (period_key r) = y)
                      (growth_table grp (groupby_sum (keyed_rows per rs))))"
  shows "total_registrations r = sum_list (rows_in_cell per (period_key r) g rs)"
proof -
  from assms have "r \<in> set (growth_table grp (groupby_sum (keyed_rows per rs)))"
    and "group_value r = g" by simp_all
  with growth_table_total [of r grp per rs] show ?thesis by simp
qed

section \<open>Relations in a store\<close>

lemma read_sql_to_sql:
  "read_sql (to_sql n r st) k = (if k = n then Some r else read_sql st k)"
  by (induction st) (auto simp: read_sql_def)

lemma to_sql_same: "read_sql st n = Some r \<Longrightarrow> to_sql n r st = st"
  by (induction st) (auto simp: read_sql_def split: if_splits)

lemma growth_block_absent:
  "group_col \<notin> set (columns df) \<Longrightarrow> growth_block name group_col df st = (st, Inr None)"
  by (simp add: growth_block_def)

lemma growth_block_other:
  assumes "k \<notin> set (map name [''monthly'', ''yearly'', ''quarterly''])"
  shows "read_sql (fst (growth_block name group_col df st)) k = read_sql st k"
  using assms
  by (simp add: growth_block_def read_sql_to_sql split: sum.splits prod.splits)

section \<open>Growth against the preceding period\<close>

lemma calculate_growth_metrics_InrD:
  assumes "calculate_growth_metrics df date_col value_col group_col = Inr (m, y, q)"
  shows "\<exists>rs. select_columns df date_col value_col group_col = Inr rs
            \<and> m = monthly_growth rs \<and> y = yearly_growth rs \<and> q = quarterly_growth rs"
  using assms by (auto simp: calculate_growth_metrics_def split: sum.splits)

lemma of_group_chained:
  "chained (of_group g (growth_table (\<lambda>((p, g), v). g) agg))"
  using growth_table_chain [of "\<lambda>((p, g), v). g" g agg]
  by (simp add: chained_def of_group_def krow_def)

lemma of_group_year_chained:
  "chained (of_group_year g y (growth_table (\<lambda>((p, g), v). (g, fst p)) agg))"
  using growth_table_chain [of "\<lambda>((p, g), v). (g, fst p)" "(g, y)" agg]
  by (simp add: chained_def of_group_year_def krow_def)

lemma chained_hd:
  assumes "chained t" and "t \<noteq> []"
  shows "growth_pct (hd t) = NaN"
proof -
  from assms(2) obtain r rs where t: "t = r # rs" by (cases t) auto
  with assms(1) show ?thesis by (simp add: chained_def)
qed

lemma chained_Suc:
  assumes "chained t" and "Suc i < length t"
  shows "growth_pct (t ! Suc i)
           = times100 (fdiv_minus_one (Some (total_registrations (t ! i)))
                         (total_registrations (t ! Suc i)))"
proof -
  have "growth_pct (t ! Suc i) = map growth_pct t ! Suc i"
    using assms(2) by simp
  also have "\<dots> = times100 (chain None (map total_registrations t) ! Suc i)"
    using assms by (simp add: chained_def length_chain)
  also have "chain None (map total_registrations t) ! Suc i
               = fdiv_minus_one (Some (map total_registrations t ! i))
                   (map total_registrations t ! Suc i)"
    using assms(2) by (intro chain_Suc) simp
  finally show ?thesis using assms(2) by simp
qed

lemma times100_nonzero:
  "p \<noteq> 0 \<Longrightarrow> times100 (fdiv_minus_one (Some p) c) = spec_growth p c"
  by (simp add: spec_growth_def field_simps)

lemma chained_spec_growth:
  assumes "chained t" and "Suc i < length t" and "total_registrations (t ! i) \<noteq> 0"
  shows "growth_pct (t ! Suc i)
           = spec_growth (total_registrations (t ! i)) (total_registrations (t ! Suc i))"
  using chained_Suc [OF assms(1,2)] times100_nonzero [OF assms(3)] by simp

lemma monthly_chained: "chained (of_group g (monthly_growth rs))"
  unfolding monthly_growth_def by (rule of_group_chained)

lemma yearly_chained: "chained (of_group g (yearly_growth rs))"
  unfolding yearly_growth_def by (rule of_group_chained)

lemma quarterly_chained: "chained (of_group_year g y (quarterly_growth rs))"
  unfolding quarterly_growth_def by (rule of_group_year_chained)

lemma monthly_periods:
  "map period_key (of_group g (monthly_growth rs))
     = sort (remdups (input_periods year_month g rs))"
  unfolding monthly_growth_def of_group_def by (rule group_periods_list)

lemma yearly_periods:
  "map period_key (of_group g (yearly_growth rs)) = sort (remdups (input_periods year g rs))"
  unfolding yearly_growth_def of_group_def by (rule group_periods_list)

lemma monthly_totals:
  "r \<in> set (of_group g (monthly_growth rs))
     \<Longrightarrow> total_registrations r = sum_list (rows_in_cell year_month (period_key r) g rs)"
  unfolding monthly_growth_def of_group_def by (rule group_totals)

lemma yearly_totals:
  "r \<in> set (of_group g (yearly_growth rs))
     \<Longrightarrow> total_registrations r = sum_list (rows_in_cell year (period_key r) g rs)"
  unfolding yearly_growth_def of_group_def by (rule group_totals)

lemma quarterly_periods:
  "map period_key (of_group_year g y (quarterly_growth rs))
     = filter (\<lambda>p. fst p = y) (sort (remdups (input_periods year_quarter g rs)))"
  unfolding quarterly_growth_def of_group_year_def by (rule group_year_periods_list)

lemma quarterly_totals:
  "r \<in> set (of_group_year g y (quarterly_growth rs))
     \<Longrightarrow> total_registrations r = sum_list (rows_in_cell year_quarter (period_key r) g rs)"
  unfolding quarterly_growth_def of_group_year_def by (rule group_year_totals)

lemma calculate_growth_metrics_Inr:
  assumes "select_columns df date_col value_col group_col = Inr rs"
  shows "calculate_growth_metrics df date_col value_col group_col
           = Inr (monthly_growth rs, yearly_growth rs, quarterly_growth rs)"
  using assms by (simp add: calculate_growth_metrics_def)

lemma chained_over_zero:
  assumes "chained t" and "Suc i < length t" and "total_registrations (t ! i) = 0"
  shows "growth_pct (t ! Suc i) = over_zero (total_registrations (t ! Suc i))"
  using chained_Suc [OF assms(1,2)] assms(3) by (simp add: over_zero_def)

text \<open>
  Claim C4. Let \<open>rs\<close> be the rows that \<^verbatim>\<open>calculate_growth_metrics\<close> reads from the
  frame. In the monthly and in the yearly table it returns, the rows of one group value
  are, in this order, the periods of the input rows of that group, each once and
  ascending; the total of each is the sum of the registrations present in the input rows
  of that period and group; the first of them has no growth; every later one, where the
  total of the row before it is not zero, has the growth
  \<^verbatim>\<open>(total[i] - total[i-1]) / total[i-1] * 100\<close> against the row before it, which
  is the immediately preceding period of the group.
\<close>

theorem growth_against_preceding_period:
  assumes "select_columns df date_col value_col group_col = Inr rs"
    and "calculate_growth_metrics df date_col value_col group_col
           = Inr (monthly, yearly, quarterly)"
  shows "map period_key (of_group g monthly)
           = sort (remdups (input_periods year_month g rs))
       \<and> (\<forall>r \<in> set (of_group g monthly). total_registrations r
             = sum_list (rows_in_cell year_month (period_key r) g rs))
       \<and> (of_group g monthly \<noteq> [] \<longrightarrow> growth_pct (hd (of_group g monthly)) = NaN)
       \<and> (\<forall>i. Suc i < length (of_group g monthly)
               \<and> total_registrations (of_group g monthly ! i) \<noteq> 0
             \<longrightarrow> growth_pct (of_group g monthly ! Suc i)
                   = spec_growth (total_registrations (of_group g monthly ! i))
                       (total_registrations (of_group g monthly ! Suc i)))
       \<and> map period_key (of_group g yearly) = sort (remdups (input_periods year g rs))
       \<and> (\<forall>r \<in> set (of_group g yearly). total_registrations r
             = sum_list (rows_in_cell year (period_key r) g rs))
       \<and> (of_group g yearly \<noteq> [] \<longrightarrow> growth_pct (hd (of_group g yearly)) = NaN)
       \<and> (\<forall>i. Suc i < length (of_group g yearly)
               \<and> total_registrations (of_group g yearly ! i) \<noteq> 0
             \<longrightarrow> growth_pct (of_group g yearly ! Suc i)
                   = spec_growth (total_registrations (of_group g yearly ! i))
                       (total_registrations (of_group g yearly ! Suc i)))"
proof -
  from assms have m: "monthly = monthly_growth rs" and y: "yearly = yearly_growth rs"
    by (simp_all add: calculate_growth_metrics_def)
  have cm: "chained (of_group g monthly)" unfolding m by (rule monthly_chained)
  have cy: "chained (of_group g yearly)" unfolding y by (rule yearly_chained)
  have pm: "map period_key (of_group g monthly)
              = sort (remdups (input_periods year_month g rs))"
    unfolding m by (rule monthly_periods)
  have py: "map period_key (of_group g yearly) = sort (remdups (input_periods year g rs))"
    unfolding y by (rule yearly_periods)
  have tm: "\<forall>r \<in> set (of_group g monthly). total_registrations r
              = sum_list (rows_in_cell year_month (period_key r) g rs)"
    unfolding m by (blast intro: monthly_totals)
  have ty: "\<forall>r \<in> set (of_group g yearly). total_registrations r
              = sum_list (rows_in_cell year (period_key r) g rs)"
    unfolding y by (blast intro: yearly_totals)
  have hm: "of_group g monthly \<noteq> [] \<longrightarrow> growth_pct (hd (of_group g monthly)) = NaN"
    using chained_hd [OF cm] by blast
  have hy: "of_group g yearly \<noteq> [] \<longrightarrow> growth_pct (hd (of_group g yearly)) = NaN"
    using chained_hd [OF cy] by blast
  have gm: "\<forall>i. Suc i < length (of_group g monthly)
               \<and> total_registrations (of_group g monthly ! i) \<noteq> 0
             \<longrightarrow> growth_pct (of_group g monthly ! Suc i)
                   = spec_growth (total_registrations (of_group g monthly ! i))
                       (total_registrations (of_group g monthly ! Suc i))"
    using chained_spec_growth [OF cm] by blast
  have gy: "\<forall>i. Suc i < length (of_group g yearly)
               \<and> total_registrations (of_group g yearly ! i) \<noteq> 0
             \<longrightarrow> growth_pct (of_group g yearly ! Suc i)
                   = spec_growth (total_registrations (of_group g yearly ! i))
                       (total_registrations (of_group g yearly ! Suc i))"
    using chained_spec_growth [OF cy] by blast
  show ?thesis
    by (intro conjI pm tm hm gm py ty hy gy)
qed

theorem growth_against_preceding_period_witness:
  "select_columns two_years ''date'' ''registrations'' ''category'' = Inr two_years_rows
   \<and> calculate_growth_metrics two_years ''date'' ''registrations'' ''category''
       = Inr (monthly_growth two_years_rows, yearly_growth two_years_rows,
              quarterly_growth two_years_rows)
   \<and> map period_key (of_group ''2W'' (monthly_growth two_years_rows))
       = [(2022, 12), (2023, 1), (2023, 2)]
   \<and> total_registrations (of_group ''2W'' (monthly_growth two_years_rows) ! 1)
       = sum_list [150]
   \<and> growth_pct (of_group ''2W'' (monthly_growth two_years_rows) ! 0) = NaN
   \<and> growth_pct (of_group ''2W'' (monthly_growth two_years_rows) ! 1) = Finite 50
   \<and> growth_pct (of_group ''2W'' (monthly_growth two_years_rows) ! 2) = Finite (- 100)
   \<and> map period_key (of_group ''2W'' (yearly_growth two_years_rows)) = [2022, 2023]
   \<and> total_registrations (of_group ''2W'' (yearly_growth two_years_rows) ! 1)
       = sum_list [150, 0]
   \<and> growth_pct (of_group ''2W'' (yearly_growth two_years_rows) ! 0) = NaN
   \<and> growth_pct (of_group ''2W'' (yearly_growth two_years_rows) ! 1) = Finite 50"
proof -
  let ?m = "of_group ''2W'' (monthly_growth two_years_rows)"
  let ?y = "of_group ''2W'' (yearly_growth two_years_rows)"
  have s: "select_columns two_years ''date'' ''registrations'' ''category''
             = Inr two_years_rows"
    by code_simp
  have c: "calculate_growth_metrics two_years ''date'' ''registrations'' ''category''
             = Inr (monthly_growth two_years_rows, yearly_growth two_years_rows,
                    quarterly_growth two_years_rows)"
    by code_simp
  note t = growth_against_preceding_period [OF s c, of "''2W''"]
  have pm: "map period_key ?m = sort (remdups (input_periods year_month ''2W'' two_years_rows))"
    and tm: "\<forall>r \<in> set ?m. total_registrations r
               = sum_list (rows_in_cell year_month (period_key r) ''2W'' two_years_rows)"
    and hm: "?m \<noteq> [] \<longrightarrow> growth_pct (hd ?m) = NaN"
    and gm: "\<forall>i. Suc i < length ?m \<and> total_registrations (?m ! i) \<noteq> 0
               \<longrightarrow> growth_pct (?m ! Suc i)
                     = spec_growth (total_registrations (?m ! i)) (total_registrations (?m ! Suc i))"
    and py: "map period_key ?y = sort (remdups (input_periods year ''2W'' two_years_rows))"
    and ty: "\<forall>r \<in> set ?y. total_registrations r
               = sum_list (rows_in_cell year (period_key r) ''2W'' two_years_rows)"
    and hy: "?y \<noteq> [] \<longrightarrow> growth_pct (hd ?y) = NaN"
    and gy: "\<forall>i. Suc i < length ?y \<and> total_registrations (?y ! i) \<noteq> 0
               \<longrightarrow> growth_pct (?y ! Suc i)
                     = spec_growth (total_registrations (?y ! i)) (total_registrations (?y ! Suc i))"
    using t by blast+
  have em: "sort (remdups (input_periods year_month ''2W'' two_years_rows))
              = [(2022 :: int, 12 :: nat), (2023, 1), (2023, 2)]"
    by code_simp
  have ey: "sort (remdups (input_periods year ''2W'' two_years_rows)) = [2022 :: int, 2023]"
    by code_simp
  have c1: "map period_key ?m = [(2022, 12), (2023, 1), (2023, 2)]"
    using pm em by (rule trans)
  have c5: "map period_key ?y = [2022, 2023]"
    using py ey by (rule trans)
  have lm: "length ?m = 3" using arg_cong [OF c1, of length] by simp
  have ly: "length ?y = 2" using arg_cong [OF c5, of length] by simp
  have km1: "period_key (?m ! 1) = (2023, 1)"
    using arg_cong [OF c1, of "\<lambda>xs. xs ! 1"] lm by simp
  have ky1: "period_key (?y ! 1) = 2023"
    using arg_cong [OF c5, of "\<lambda>xs. xs ! 1"] ly by simp
  have im1: "?m ! 1 \<in> set ?m" using lm by simp
  have iy1: "?y ! 1 \<in> set ?y" using ly by simp
  have rm: "rows_in_cell year_month (2023 :: int, 1 :: nat) ''2W'' two_years_rows = [150]"
    by code_simp
  have ry: "rows_in_cell year (2023 :: int) ''2W'' two_years_rows = [150, 0]"
    by code_simp
  have c2: "total_registrations (?m ! 1) = sum_list [150]"
    using tm [rule_format, OF im1] unfolding km1 rm .
  have c6: "total_registrations (?y ! 1) = sum_list [150, 0]"
    using ty [rule_format, OF iy1] unfolding ky1 ry .
  have nm: "?m \<noteq> []" using lm by auto
  have ny: "?y \<noteq> []" using ly by auto
  have c3: "growth_pct (?m ! 0) = NaN"
    using hm [rule_format, OF nm] nm by (simp add: hd_conv_nth)
  have c7: "growth_pct (?y ! 0) = NaN"
    using hy [rule_format, OF ny] ny by (simp add: hd_conv_nth)
  have vm0: "total_registrations (?m ! 0) = 100" by code_simp
  have vm1: "total_registrations (?m ! 1) = 150" by code_simp
  have vm2: "total_registrations (?m ! 2) = 0" by code_simp
  have vy0: "total_registrations (?y ! 0) = 100" by code_simp
  have vy1: "total_registrations (?y ! 1) = 150" by code_simp
  have c4a: "growth_pct (?m ! Suc 0) = spec_growth 100 150"
    using gm [rule_format, of 0] lm vm0 vm1 by simp
  have c4b: "growth_pct (?m ! Suc 1) = spec_growth 150 0"
    using gm [rule_format, of 1] lm vm1 vm2 by (simp add: numeral_2_eq_2)
  have c8a: "growth_pct (?y ! Suc 0) = spec_growth 100 150"
    using gy [rule_format, of 0] ly vy0 vy1 by simp
  have c4: "growth_pct (?m ! 1) = Finite 50"
    using c4a by (simp add: spec_growth_def)
  have c4': "growth_pct (?m ! 2) = Finite (- 100)"
    using c4b by (simp add: spec_growth_def numeral_2_eq_2)
  have c8: "growth_pct (?y ! 1) = Finite 50"
    using c8a by (simp add: spec_growth_def)
  show ?thesis
    by (intro conjI s c c1 c2 c3 c4 c4' c5 c6 c7 c8)
qed


section \<open>A previous total of zero\<close>

text \<open>
  Claim C2, as the code has it. Where the columns can be read,
  \<^verbatim>\<open>calculate_growth_metrics\<close> returns its three tables whatever the totals are.
  The rows of one group in the monthly and in the yearly table, and the rows of one group
  and year in the quarterly table, are the periods of the input rows of that group (and
  year), ascending, each with the sum of the registrations present. Among them, a row
  that follows a row with total 0 has the growth that float division gives: missing when
  its own total is 0 as well, plus infinity when its total is positive, minus infinity
  when it is negative.
\<close>

theorem growth_over_zero_total:
  assumes "select_columns df date_col value_col group_col = Inr rs"
  shows "calculate_growth_metrics df date_col value_col group_col
           = Inr (monthly_growth rs, yearly_growth rs, quarterly_growth rs)
       \<and> map period_key (of_group g (monthly_growth rs))
           = sort (remdups (input_periods year_month g rs))
       \<and> (\<forall>r \<in> set (of_group g (monthly_growth rs)). total_registrations r
             = sum_list (rows_in_cell year_month (period_key r) g rs))
       \<and> (\<forall>i. Suc i < length (of_group g (monthly_growth rs))
               \<and> total_registrations (of_group g (monthly_growth rs) ! i) = 0
             \<longrightarrow> growth_pct (of_group g (monthly_growth rs) ! Suc i)
                   = over_zero (total_registrations (of_group g (monthly_growth rs) ! Suc i)))
       \<and> map period_key (of_group g (yearly_growth rs))
           = sort (remdups (input_periods year g rs))
       \<and> (\<forall>r \<in> set (of_group g (yearly_growth rs)). total_registrations r
             = sum_list (rows_in_cell year (period_key r) g rs))
       \<and> (\<forall>i. Suc i < length (of_group g (yearly_growth rs))
               \<and> total_registrations (of_group g (yearly_growth rs) ! i) = 0
             \<longrightarrow> growth_pct (of_group g (yearly_growth rs) ! Suc i)
                   = over_zero (total_registrations (of_group g (yearly_growth rs) ! Suc i)))
       \<and> map period_key (of_group_year g y (quarterly_growth rs))
           = filter (\<lambda>p. fst p = y) (sort (remdups (input_periods year_quarter g rs)))
       \<and> (\<forall>r \<in> set (of_group_year g y (quarterly_growth rs)). total_registrations r
             = sum_list (rows_in_cell year_quarter (period_key r) g rs))
       \<and> (\<forall>i. Suc i < length (of_group_year g y (quarterly_growth rs))
               \<and> total_registrations (of_group_year g y (quarterly_growth rs) ! i) = 0
             \<longrightarrow> growth_pct (of_group_year g y (quarterly_growth rs) ! Suc i)
                   = over_zero
                       (total_registrations (of_group_year g y (quarterly_growth rs) ! Suc i)))"
proof -
  have tm: "\<forall>r \<in> set (of_group g (monthly_growth rs)). total_registrations r
              = sum_list (rows_in_cell year_month (period_key r) g rs)"
    by (blast intro: monthly_totals)
  have ty: "\<forall>r \<in> set (of_group g (yearly_growth rs)). total_registrations r
              = sum_list (rows_in_cell year (period_key r) g rs)"
    by (blast intro: yearly_totals)
  have tq: "\<forall>r \<in> set (of_group_year g y (quarterly_growth rs)). total_registrations r
              = sum_list (rows_in_cell year_quarter (period_key r) g rs)"
    by (blast intro: quarterly_totals)
  have zm: "\<forall>i. Suc i < length (of_group g (monthly_growth rs))
               \<and> total_registrations (of_group g (monthly_growth rs) ! i) = 0
             \<longrightarrow> growth_pct (of_group g (monthly_growth rs) ! Suc i)
                   = over_zero (total_registrations (of_group g (monthly_growth rs) ! Suc i))"
    using chained_over_zero [OF monthly_chained [of g rs]] by blast
  have zy: "\<forall>i. Suc i < length (of_group g (yearly_growth rs))
               \<and> total_registrations (of_group g (yearly_growth rs) ! i) = 0
             \<longrightarrow> growth_pct (of_group g (yearly_growth rs) ! Suc i)
                   = over_zero (total_registrations (of_group g (yearly_growth rs) ! Suc i))"
    using chained_over_zero [OF yearly_chained [of g rs]] by blast
  have zq: "\<forall>i. Suc i < length (of_group_year g y (quarterly_growth rs))
               \<and> total_registrations (of_group_year g y (quarterly_growth rs) ! i) = 0
             \<longrightarrow> growth_pct (of_group_year g y (quarterly_growth rs) ! Suc i)
                   = over_zero
                       (total_registrations (of_group_year g y (quarterly_growth rs) ! Suc i))"
    using chained_over_zero [OF quarterly_chained [of g y rs]] by blast
  show ?thesis
    by (intro conjI calculate_growth_metrics_Inr [OF assms] monthly_periods yearly_periods
          quarterly_periods tm ty tq zm zy zq)
qed

theorem growth_over_zero_total_witness:
  "select_columns zero_previous ''date'' ''registrations'' ''category''
     = Inr zero_previous_rows
   \<and> calculate_growth_metrics zero_previous ''date'' ''registrations'' ''category''
       = Inr (monthly_growth zero_previous_rows, yearly_growth zero_previous_rows,
              quarterly_growth zero_previous_rows)
   \<and> map krow (of_group ''2W'' (monthly_growth zero_previous_rows))
       = [(((2022, 6), ''2W''), 0), (((2023, 1), ''2W''), 0), (((2023, 4), ''2W''), 150)]
   \<and> growth_pct (of_group ''2W'' (monthly_growth zero_previous_rows) ! 1) = NaN
   \<and> growth_pct (of_group ''2W'' (monthly_growth zero_previous_rows) ! 2) = PosInf
   \<and> map krow (of_group ''2W'' (yearly_growth zero_previous_rows))
       = [((2022, ''2W''), 0), ((2023, ''2W''), 150)]
   \<and> growth_pct (of_group ''2W'' (yearly_growth zero_previous_rows) ! 1) = PosInf
   \<and> map krow (of_group_year ''2W'' 2023 (quarterly_growth zero_previous_rows))
       = [(((2023, 1), ''2W''), 0), (((2023, 2), ''2W''), 150)]
   \<and> growth_pct (of_group_year ''2W'' 2023 (quarterly_growth zero_previous_rows) ! 1)
       = PosInf"
proof -
  let ?m = "of_group ''2W'' (monthly_growth zero_previous_rows)"
  let ?y = "of_group ''2W'' (yearly_growth zero_previous_rows)"
  let ?q = "of_group_year ''2W'' 2023 (quarterly_growth zero_previous_rows)"
  have s: "select_columns zero_previous ''date'' ''registrations'' ''category''
             = Inr zero_previous_rows"
    by code_simp
  note t = growth_over_zero_total [OF s, of "''2W''" 2023]
  have c: "calculate_growth_metrics zero_previous ''date'' ''registrations'' ''category''
             = Inr (monthly_growth zero_previous_rows, yearly_growth zero_previous_rows,
                    quarterly_growth zero_previous_rows)"
    and zm: "\<forall>i. Suc i < length ?m \<and> total_registrations (?m ! i) = 0
               \<longrightarrow> growth_pct (?m ! Suc i) = over_zero (total_registrations (?m ! Suc i))"
    and zy: "\<forall>i. Suc i < length ?y \<and> total_registrations (?y ! i) = 0
               \<longrightarrow> growth_pct (?y ! Suc i) = over_zero (total_registrations (?y ! Suc i))"
    and zq: "\<forall>i. Suc i < length ?q \<and> total_registrations (?q ! i) = 0
               \<longrightarrow> growth_pct (?q ! Suc i) = over_zero (total_registrations (?q ! Suc i))"
    using t by blast+
  have km: "map krow ?m
              = [(((2022 :: int, 6 :: nat), ''2W''), 0), (((2023, 1), ''2W''), 0),
                 (((2023, 4), ''2W''), 150)]"
    by code_simp
  have ky: "map krow ?y = [((2022 :: int, ''2W''), 0), ((2023, ''2W''), 150)]"
    by code_simp
  have kq: "map krow ?q
              = [(((2023 :: int, 1 :: nat), ''2W''), 0), (((2023, 2), ''2W''), 150)]"
    by code_simp
  have lm: "length ?m = 3" using arg_cong [OF km, of length] by simp
  have ly: "length ?y = 2" using arg_cong [OF ky, of length] by simp
  have lq: "length ?q = 2" using arg_cong [OF kq, of length] by simp
  have vm0: "total_registrations (?m ! 0) = 0"
    using arg_cong [OF km, of "\<lambda>xs. snd (xs ! 0)"] lm by (simp add: krow_def)
  have vm1: "total_registrations (?m ! 1) = 0"
    using arg_cong [OF km, of "\<lambda>xs. snd (xs ! 1)"] lm by (simp add: krow_def)
  have vm2: "total_registrations (?m ! 2) = 150"
    using arg_cong [OF km, of "\<lambda>xs. snd (xs ! 2)"] lm by (simp add: krow_def)
  have vy0: "total_registrations (?y ! 0) = 0"
    using arg_cong [OF ky, of "\<lambda>xs. snd (xs ! 0)"] ly by (simp add: krow_def)
  have vy1: "total_registrations (?y ! 1) = 150"
    using arg_cong [OF ky, of "\<lambda>xs. snd (xs ! 1)"] ly by (simp add: krow_def)
  have vq0: "total_registrations (?q ! 0) = 0"
    using arg_cong [OF kq, of "\<lambda>xs. snd (xs ! 0)"] lq by (simp add: krow_def)
  have vq1: "total_registrations (?q ! 1) = 150"
    using arg_cong [OF kq, of "\<lambda>xs. snd (xs ! 1)"] lq by (simp add: krow_def)
  have g1: "growth_pct (?m ! 1) = NaN"
    using zm [rule_format, of 0] lm vm0 vm1 by (simp add: over_zero_def)
  have g2: "growth_pct (?m ! 2) = PosInf"
    using zm [rule_format, of 1] lm vm1 vm2 by (simp add: over_zero_def numeral_2_eq_2)
  have g3: "growth_pct (?y ! 1) = PosInf"
    using zy [rule_format, of 0] ly vy0 vy1 by (simp add: over_zero_def)
  have g4: "growth_pct (?q ! 1) = PosInf"
    using zq [rule_format, of 0] lq vq0 vq1 by (simp add: over_zero_def)
  show ?thesis
    by (intro conjI s c km g1 g2 ky g3 kq g4)
qed

text \<open>The claim as the specification states it (the growth after a total of zero is
  absent in all three tables) fails: after the total 0 the total 150 has the growth plus
  infinity in the monthly, the yearly and the quarterly table.\<close>

theorem zero_total_gives_infinity:
  "calculate_growth_metrics zero_previous ''date'' ''registrations'' ''category''
     = Inr ([growth_row (2022, 6) ''2W'' 0 NaN,
             growth_row (2023, 1) ''2W'' 0 NaN,
             growth_row (2023, 4) ''2W'' 150 PosInf],
            [growth_row 2022 ''2W'' 0 NaN,
             growth_row 2023 ''2W'' 150 PosInf],
            [growth_row (2022, 2) ''2W'' 0 NaN,
             growth_row (2023, 1) ''2W'' 0 NaN,
             growth_row (2023, 2) ''2W'' 150 PosInf])"
  by code_simp


section \<open>Quarterly growth at the year boundary\<close>





section \<open>Totals and missing values\<close>

lemma monthly_zero_fill: "monthly_growth (zero_fill rs) = monthly_growth rs"
  by (simp add: monthly_growth_def groupby_sum_zero_fill)

lemma yearly_zero_fill: "yearly_growth (zero_fill rs) = yearly_growth rs"
  by (simp add: yearly_growth_def groupby_sum_zero_fill)

lemma quarterly_zero_fill: "quarterly_growth (zero_fill rs) = quarterly_growth rs"
  by (simp add: quarterly_growth_def groupby_sum_zero_fill)

text \<open>
  Claim C5, as the code has it. Every table of \<^verbatim>\<open>calculate_growth_metrics\<close> has
  exactly one row for every pair of a period and a group value that occurs in an input
  row with a date and a group value (whether or not the row has registrations), and no
  other row. The total of the row is the sum of the registrations present in the input
  rows of that period and group: rows without registrations, without a group value or
  without a date add nothing. The tables are the same as those of the zero-filled input.
\<close>

theorem totals_sum_present_registrations:
  assumes "select_columns df date_col value_col group_col = Inr rs"
  shows "calculate_growth_metrics df date_col value_col group_col
           = Inr (monthly_growth rs, yearly_growth rs, quarterly_growth rs)
       \<and> (\<forall>r \<in> set (monthly_growth rs). total_registrations r
             = sum_list (rows_in_cell year_month (period_key r) (group_value r) rs))
       \<and> (\<forall>r \<in> set (yearly_growth rs). total_registrations r
             = sum_list (rows_in_cell year (period_key r) (group_value r) rs))
       \<and> (\<forall>r \<in> set (quarterly_growth rs). total_registrations r
             = sum_list (rows_in_cell year_quarter (period_key r) (group_value r) rs))
       \<and> set (map cell_key (monthly_growth rs))
             = {(year_month t, g) | t g v. (Some t, Some g, v) \<in> set rs}
       \<and> set (map cell_key (yearly_growth rs))
             = {(year t, g) | t g v. (Some t, Some g, v) \<in> set rs}
       \<and> set (map cell_key (quarterly_growth rs))
             = {(year_quarter t, g) | t g v. (Some t, Some g, v) \<in> set rs}
       \<and> distinct (map cell_key (monthly_growth rs))
       \<and> distinct (map cell_key (yearly_growth rs))
       \<and> distinct (map cell_key (quarterly_growth rs))
       \<and> monthly_growth rs = monthly_growth (zero_fill rs)
       \<and> yearly_growth rs = yearly_growth (zero_fill rs)
       \<and> quarterly_growth rs = quarterly_growth (zero_fill rs)"
proof (intro conjI)
  show "calculate_growth_metrics df date_col value_col group_col
          = Inr (monthly_growth rs, yearly_growth rs, quarterly_growth rs)"
    by (rule calculate_growth_metrics_Inr [OF assms])
  show "\<forall>r \<in> set (monthly_growth rs). total_registrations r
          = sum_list (rows_in_cell year_month (period_key r) (group_value r) rs)"
    unfolding monthly_growth_def by (blast intro: growth_table_total)
  show "\<forall>r \<in> set (yearly_growth rs). total_registrations r
          = sum_list (rows_in_cell year (period_key r) (group_value r) rs)"
    unfolding yearly_growth_def by (blast intro: growth_table_total)
  show "\<forall>r \<in> set (quarterly_growth rs). total_registrations r
          = sum_list (rows_in_cell year_quarter (period_key r) (group_value r) rs)"
    unfolding quarterly_growth_def by (blast intro: growth_table_total)
  show "set (map cell_key (monthly_growth rs))
          = {(year_month t, g) | t g v. (Some t, Some g, v) \<in> set rs}"
    unfolding monthly_growth_def by (rule growth_table_cells)
  show "set (map cell_key (yearly_growth rs))
          = {(year t, g) | t g v. (Some t, Some g, v) \<in> set rs}"
    unfolding yearly_growth_def by (rule growth_table_cells)
  show "set (map cell_key (quarterly_growth rs))
          = {(year_quarter t, g) | t g v. (Some t, Some g, v) \<in> set rs}"
    unfolding quarterly_growth_def by (rule growth_table_cells)
  show "distinct (map cell_key (monthly_growth rs))"
    unfolding monthly_growth_def by (rule growth_table_distinct)
  show "distinct (map cell_key (yearly_growth rs))"
    unfolding yearly_growth_def by (rule growth_table_distinct)
  show "distinct (map cell_key (quarterly_growth rs))"
    unfolding quarterly_growth_def by (rule growth_table_distinct)
  show "monthly_growth rs = monthly_growth (zero_fill rs)"
    by (simp add: monthly_zero_fill)
  show "yearly_growth rs = yearly_growth (zero_fill rs)"
    by (simp add: yearly_zero_fill)
  show "quarterly_growth rs = quarterly_growth (zero_fill rs)"
    by (simp add: quarterly_zero_fill)
qed

theorem totals_sum_present_registrations_witness:
  "select_columns with_missing ''date'' ''registrations'' ''category''
     = Inr with_missing_rows
   \<and> calculate_growth_metrics with_missing ''date'' ''registrations'' ''category''
       = Inr (monthly_growth with_missing_rows, yearly_growth with_missing_rows,
              quarterly_growth with_missing_rows)
   \<and> monthly_growth with_missing_rows = [growth_row (2023, 1) ''2W'' 100 NaN]
   \<and> total_registrations (growth_row (2023 :: int, 1 :: nat) ''2W'' 100 NaN)
       = sum_list (rows_in_cell year_month (2023, 1) ''2W'' with_missing_rows)
   \<and> rows_in_cell year_month (2023, 1) ''2W'' with_missing_rows = [100]"
proof -
  let ?r = "growth_row (2023 :: int, 1 :: nat) ''2W'' 100 NaN"
  have s: "select_columns with_missing ''date'' ''registrations'' ''category''
             = Inr with_missing_rows"
    by code_simp
  note t = totals_sum_present_registrations [OF s]
  have c: "calculate_growth_metrics with_missing ''date'' ''registrations'' ''category''
             = Inr (monthly_growth with_missing_rows, yearly_growth with_missing_rows,
                    quarterly_growth with_missing_rows)"
    by (rule t [THEN conjunct1])
  have tm: "\<forall>r \<in> set (monthly_growth with_missing_rows). total_registrations r
               = sum_list (rows_in_cell year_month (period_key r) (group_value r)
                             with_missing_rows)"
    by (rule t [THEN conjunct2, THEN conjunct1])
  have m: "monthly_growth with_missing_rows = [?r]" by code_simp
  have i: "?r \<in> set (monthly_growth with_missing_rows)"
    by (simp only: m list.set insertI1)
  have k: "period_key ?r = (2023, 1)" and g: "group_value ?r = ''2W''"
    by (simp_all add: growth_row_def)
  have f: "total_registrations ?r
             = sum_list (rows_in_cell year_month (2023, 1) ''2W'' with_missing_rows)"
    using tm [rule_format, OF i] by (simp only: k g)
  have e: "rows_in_cell year_month (2023 :: int, 1 :: nat) ''2W'' with_missing_rows = [100]"
    by code_simp
  show ?thesis
    by (intro conjI s c m f e)
qed

text \<open>The claim as the specification states it (the total differs from the zero-filled
  total whenever a row without registrations exists) fails: the frame with a missing
  registration and the frame with a zero in its place have the same tables.\<close>

theorem missing_equals_zero_filled:
  "calculate_growth_metrics with_missing ''date'' ''registrations'' ''category''
     = Inr ([growth_row (2023, 1) ''2W'' 100 NaN],
            [growth_row 2023 ''2W'' 100 NaN],
            [growth_row (2023, 1) ''2W'' 100 NaN])
   \<and> calculate_growth_metrics with_zero ''date'' ''registrations'' ''category''
     = Inr ([growth_row (2023, 1) ''2W'' 100 NaN],
            [growth_row 2023 ''2W'' 100 NaN],
            [growth_row (2023, 1) ''2W'' 100 NaN])
   \<and> NA \<in> set (map (\<lambda>r. cell_at r 2) (rows with_missing))"
  by code_simp


section \<open>A cleaned table without a group column\<close>

lemma return_tables_None:
  "c = None \<or> m = None \<Longrightarrow> return_tables df_clean c m = Inl UnboundLocalError"
  by (auto simp: return_tables_def split: option.splits)

lemma write_growth_files_absent:
  assumes "''category'' \<notin> set (columns df_clean) \<or> ''manufacturer'' \<notin> set (columns df_clean)"
  shows "\<exists>e. snd (write_growth_files file df_clean w2) = Inl e"
proof -
  let ?c = "growth_block (\<lambda>per. file (per @ ''_category_growth'')) ''category'' df_clean
              (csv_files w2)"
  obtain f3 rc where c: "?c = (f3, rc)" by (cases ?c)
  let ?m = "growth_block (\<lambda>per. file (per @ ''_manufacturer_growth'')) ''manufacturer''
              df_clean f3"
  obtain f4 rm where m: "?m = (f4, rm)" by (cases ?m)
  show ?thesis
  proof (cases rc)
    case (Inl e)
    with c show ?thesis by (simp add: write_growth_files_def)
  next
    case rcv: (Inr cv)
    show ?thesis
    proof (cases rm)
      case (Inl e)
      with c m rcv show ?thesis by (simp add: write_growth_files_def)
    next
      case rmv: (Inr mv)
      have "cv = None \<or> mv = None"
        using assms c m rcv rmv
          growth_block_absent [of "''category''" df_clean _ "csv_files w2"]
          growth_block_absent [of "''manufacturer''" df_clean _ f3]
        by auto
      then have "return_tables df_clean cv mv = Inl UnboundLocalError"
        by (rule return_tables_None)
      with c m rcv rmv show ?thesis by (simp add: write_growth_files_def)
    qed
  qed
qed

lemma write_growth_files_db: "db (fst (write_growth_files file df_clean w2)) = db w2"
  by (simp add: write_growth_files_def split: prod.splits sum.splits)

lemma save_to_sqlite_records:
  "read_sql (db (fst (save_to_sqlite df w))) ''vehicle_registrations'' = Some (Records df)"
proof -
  let ?st1 = "to_sql ''vehicle_registrations'' (Records df) (db w)"
  have a: "read_sql (fst (growth_block (\<lambda>per. per @ ''_category_growth'') ''category'' df st))
             ''vehicle_registrations'' = read_sql st ''vehicle_registrations''" for st
    by (rule growth_block_other) simp
  have b: "read_sql (fst (growth_block (\<lambda>per. per @ ''_manufacturer_growth'')
                            ''manufacturer'' df st))
             ''vehicle_registrations'' = read_sql st ''vehicle_registrations''" for st
    by (rule growth_block_other) simp
  have r: "read_sql ?st1 ''vehicle_registrations'' = Some (Records df)"
    by (simp add: read_sql_to_sql)
  let ?c = "growth_block (\<lambda>per. per @ ''_category_growth'') ''category'' df ?st1"
  let ?m = "growth_block (\<lambda>per. per @ ''_manufacturer_growth'') ''manufacturer'' df (fst ?c)"
  have rc: "read_sql (fst ?c) ''vehicle_registrations'' = Some (Records df)"
    using a [of ?st1] r by simp
  have rm: "read_sql (fst ?m) ''vehicle_registrations'' = Some (Records df)"
    using b [of "fst ?c"] rc by simp
  have "db (fst (save_to_sqlite df w)) = fst ?c \<or> db (fst (save_to_sqlite df w)) = fst ?m"
    by (cases ?c; cases ?m) (auto simp: save_to_sqlite_def Let_def split: sum.splits)
  with rc rm show ?thesis by auto
qed

lemma save_to_sqlite_absent:
  assumes "group_col \<in> {''category'', ''manufacturer''}"
    and "group_col \<notin> set (columns df)" and "n \<in> set (growth_relations group_col)"
  shows "read_sql (db (fst (save_to_sqlite df w))) n = read_sql (db w) n"
proof -
  let ?st1 = "to_sql ''vehicle_registrations'' (Records df) (db w)"
  let ?c = "growth_block (\<lambda>per. per @ ''_category_growth'') ''category'' df ?st1"
  let ?m = "growth_block (\<lambda>per. per @ ''_manufacturer_growth'') ''manufacturer'' df (fst ?c)"
  have n1: "read_sql ?st1 n = read_sql (db w) n"
    using assms(1,3) by (auto simp: read_sql_to_sql growth_relations_def)
  have nc: "read_sql (fst ?c) n = read_sql ?st1 n"
  proof (cases "group_col = ''category''")
    case True
    with assms(2) show ?thesis by (simp add: growth_block_absent)
  next
    case False
    with assms(1) have "group_col = ''manufacturer''" by simp
    with assms(3) show ?thesis
      by (intro growth_block_other) (auto simp: growth_relations_def)
  qed
  have nm: "read_sql (fst ?m) n = read_sql (fst ?c) n"
  proof (cases "group_col = ''manufacturer''")
    case True
    with assms(2) show ?thesis by (simp add: growth_block_absent)
  next
    case False
    with assms(1) have "group_col = ''category''" by simp
    with assms(3) show ?thesis
      by (intro growth_block_other) (auto simp: growth_relations_def)
  qed
  have "db (fst (save_to_sqlite df w)) = fst ?c \<or> db (fst (save_to_sqlite df w)) = fst ?m"
    by (cases ?c; cases ?m) (auto simp: save_to_sqlite_def Let_def split: sum.splits)
  with n1 nc nm show ?thesis by auto
qed

lemma process_data_cleaned:
  assumes "load_data data_dir = (msgs, Inr (Some df))" and "clean_data P df = Inr df_clean"
  shows "process_data P data_dir output_dir timestamp w
           = (case save_to_sqlite df_clean
                     (w\<lparr>csv_files := to_sql (output_file output_dir timestamp ''cleaned_data'')
                                         (Records df_clean) (csv_files w),
                        printed := printed w @ msgs
                          @ [SavedCleanedData (output_file output_dir timestamp ''cleaned_data'')]\<rparr>)
              of (w2, Inl e) \<Rightarrow> (w2, Inl e)
               | (w2, Inr u) \<Rightarrow>
                   write_growth_files (output_file output_dir timestamp) df_clean w2)"
  using assms by (simp add: process_data_def Let_def)

text \<open>
  Claim C3 on the code. Let the data directory load and clean to a table without the
  column \<^verbatim>\<open>category\<close> or without the column \<^verbatim>\<open>manufacturer\<close>. Then the
  relation \<^verbatim>\<open>vehicle_registrations\<close> holds the cleaned table and the growth
  relations of the absent column are not written, as the claim says; but
  \<^verbatim>\<open>process_data\<close> does not complete: it ends in an error, because its last line
  reads the growth tables of both columns.
\<close>

theorem process_data_without_group_column:
  assumes "load_data data_dir = (msgs, Inr (Some df))"
    and "clean_data P df = Inr df_clean"
    and "''category'' \<notin> set (columns df_clean) \<or> ''manufacturer'' \<notin> set (columns df_clean)"
  shows "(\<exists>e. snd (process_data P data_dir output_dir timestamp w) = Inl e)
       \<and> read_sql (db (fst (process_data P data_dir output_dir timestamp w)))
             ''vehicle_registrations'' = Some (Records df_clean)
       \<and> (\<forall>g \<in> {''category'', ''manufacturer''}. g \<notin> set (columns df_clean) \<longrightarrow>
             (\<forall>n \<in> set (growth_relations g).
                read_sql (db (fst (process_data P data_dir output_dir timestamp w))) n
                  = read_sql (db w) n))"
proof -
  let ?file = "output_file output_dir timestamp"
  let ?w1 = "w\<lparr>csv_files := to_sql (?file ''cleaned_data'') (Records df_clean) (csv_files w),
                 printed := printed w @ msgs @ [SavedCleanedData (?file ''cleaned_data'')]\<rparr>"
  obtain w1 where w1': "w1 = ?w1" by blast
  have w1: "db w1 = db w" by (simp add: w1')
  have p: "process_data P data_dir output_dir timestamp w
              = (case save_to_sqlite df_clean w1 of
                   (w2, Inl e) \<Rightarrow> (w2, Inl e)
                 | (w2, Inr u) \<Rightarrow> write_growth_files ?file df_clean w2)"
    unfolding w1' by (rule process_data_cleaned [OF assms(1,2)])
  obtain w2 r where s: "save_to_sqlite df_clean w1 = (w2, r)"
    by (cases "save_to_sqlite df_clean w1")
  have d: "db (fst (process_data P data_dir output_dir timestamp w)) = db w2"
    unfolding p s by (cases r) (simp_all add: write_growth_files_db)
  have w2: "w2 = fst (save_to_sqlite df_clean w1)" by (simp add: s)
  have e: "\<exists>e. snd (process_data P data_dir output_dir timestamp w) = Inl e"
    unfolding p s using write_growth_files_absent [OF assms(3), of ?file w2]
    by (cases r) simp_all
  have v: "read_sql (db (fst (process_data P data_dir output_dir timestamp w)))
             ''vehicle_registrations'' = Some (Records df_clean)"
    unfolding d w2 by (rule save_to_sqlite_records)
  have a: "\<forall>g \<in> {''category'', ''manufacturer''}. g \<notin> set (columns df_clean) \<longrightarrow>
             (\<forall>n \<in> set (growth_relations g).
                read_sql (db (fst (process_data P data_dir output_dir timestamp w))) n
                  = read_sql (db w) n)"
    unfolding d w2 using save_to_sqlite_absent [of _ df_clean _ w1] w1 by metis
  show ?thesis by (intro conjI e v a)
qed

theorem process_data_without_group_column_witness:
  "load_data (Some [(''a.csv'', Some date_count_file)])
     = ([Loaded ''a.csv''], Inr (Some date_count_file))
   \<and> clean_data iso_date date_count_file = Inr date_count_clean
   \<and> ''category'' \<notin> set (columns date_count_clean)
   \<and> process_data iso_date (Some [(''a.csv'', Some date_count_file)]) ''processed_data''
         ''20240101_000000'' empty_world
       = (\<lparr>db = [(''vehicle_registrations'', Records date_count_clean)],
           csv_files = [(''processed_data/cleaned_data_20240101_000000.csv'',
                         Records date_count_clean)],
           printed = [Loaded ''a.csv'',
                      SavedCleanedData ''processed_data/cleaned_data_20240101_000000.csv'',
                      DataSavedToSqlite]\<rparr>,
          Inl UnboundLocalError)
   \<and> read_sql (db (fst (process_data iso_date (Some [(''a.csv'', Some date_count_file)])
                           ''processed_data'' ''20240101_000000'' empty_world)))
         ''monthly_category_growth'' = None"
proof -
  let ?d = "Some [(''a.csv'', Some date_count_file)]"
  let ?p = "process_data iso_date ?d ''processed_data'' ''20240101_000000'' empty_world"
  have l: "load_data ?d = ([Loaded ''a.csv''], Inr (Some date_count_file))" by code_simp
  have c: "clean_data iso_date date_count_file = Inr date_count_clean" by code_simp
  have m: "''category'' \<notin> set (columns date_count_clean)" by code_simp
  have m': "''category'' \<notin> set (columns date_count_clean)
              \<or> ''manufacturer'' \<notin> set (columns date_count_clean)"
    using m by (rule disjI1)
  note t = process_data_without_group_column
             [OF l c m', of "''processed_data''" "''20240101_000000''" empty_world]
  have a: "\<forall>g \<in> {''category'', ''manufacturer''}. g \<notin> set (columns date_count_clean) \<longrightarrow>
             (\<forall>n \<in> set (growth_relations g). read_sql (db (fst ?p)) n
                = read_sql (db empty_world) n)"
    by (rule t [THEN conjunct2, THEN conjunct2])
  have g: "''monthly_category_growth'' \<in> set (growth_relations ''category'')" by code_simp
  have z: "read_sql (db empty_world) ''monthly_category_growth'' = None" by code_simp
  have n: "read_sql (db (fst ?p)) ''monthly_category_growth'' = None"
    using a [rule_format, of "''category''", OF _ m g] z by simp
  have r: "?p = (\<lparr>db = [(''vehicle_registrations'', Records date_count_clean)],
           csv_files = [(''processed_data/cleaned_data_20240101_000000.csv'',
                         Records date_count_clean)],
           printed = [Loaded ''a.csv'',
                      SavedCleanedData ''processed_data/cleaned_data_20240101_000000.csv'',
                      DataSavedToSqlite]\<rparr>,
          Inl UnboundLocalError)"
    by code_simp
  show ?thesis by (intro conjI l c m r n)
qed


section \<open>Normalisation of labels\<close>

lemma upper_char_idem: "upper_char (upper_char c) = upper_char c"
proof (cases "c \<in> set lower_letters")
  case True
  then show ?thesis
    by (auto simp: lower_letters_def upper_letters_def upper_char_def)
next
  case False
  then have "map_of (zip lower_letters upper_letters) c = None"
    by (simp add: map_of_eq_None_iff lower_letters_def upper_letters_def)
  then show ?thesis by (simp add: upper_char_def)
qed

lemma upper_idem: "upper (upper s) = upper s"
  by (simp add: upper_def upper_char_idem)

lemma category_alias_values:
  "map_of category_aliases u = Some t \<Longrightarrow> t \<in> {''2W'', ''3W'', ''4W''}"
  by (auto simp: category_aliases_def split: if_splits)

lemma category_alias_keys:
  "map_of category_aliases (upper u) = None
     \<Longrightarrow> map_of category_aliases (upper (upper u)) = None"
  by (simp add: upper_idem)

lemma normalize_category_canonical:
  "t \<in> {''2W'', ''3W'', ''4W''} \<Longrightarrow> normalize_category t = t"
  by (auto simp: normalize_category_def replace_value_def category_aliases_def upper_def
        upper_char_def lower_letters_def upper_letters_def)

lemma normalize_category_idem:
  "normalize_category (normalize_category s) = normalize_category s"
proof (cases "map_of category_aliases (upper s)")
  case None
  then show ?thesis
    by (simp add: normalize_category_def replace_value_def upper_idem)
next
  case (Some t)
  then have "normalize_category s = t"
    by (simp add: normalize_category_def replace_value_def)
  with category_alias_values [OF Some] normalize_category_canonical [of t]
  show ?thesis by simp
qed

text \<open>
  Claim C7. The category normalisation of \<^verbatim>\<open>clean_data\<close>
  (\<^verbatim>\<open>str.upper\<close>, then the replacement of the aliases) is idempotent, on a label
  and on a cell; the canonical values 2W, 3W and 4W are left as they are; the alias
  \<^verbatim>\<open>TWO WHEELER\<close> has the image of \<^verbatim>\<open>2W\<close>. Two rows of January 2023, one
  labelled \<^verbatim>\<open>TWO WHEELER\<close> with 100 registrations and one labelled \<^verbatim>\<open>2W\<close> with
  50, are cleaned to two rows of category 2W, and the monthly table of the cleaned rows
  has the single row of 2W with the total 150 and no growth.
\<close>

theorem category_normalization_idempotent:
  "normalize_category (normalize_category s) = normalize_category s
   \<and> str_cell normalize_category (str_cell normalize_category c)
       = str_cell normalize_category c
   \<and> map normalize_category [''2W'', ''3W'', ''4W''] = [''2W'', ''3W'', ''4W'']
   \<and> normalize_category ''TWO WHEELER'' = normalize_category ''2W''
   \<and> clean_data iso_date alias_rows = Inr alias_rows_clean
   \<and> calculate_growth_metrics alias_rows_clean ''date'' ''registrations'' ''category''
       = Inr ([growth_row (2023, 1) ''2W'' 150 NaN],
              [growth_row 2023 ''2W'' 150 NaN],
              [growth_row (2023, 1) ''2W'' 150 NaN])"
proof (intro conjI)
  show "normalize_category (normalize_category s) = normalize_category s"
    by (rule normalize_category_idem)
  show "str_cell normalize_category (str_cell normalize_category c)
          = str_cell normalize_category c"
    by (cases c) (simp_all add: normalize_category_idem)
  show "map normalize_category [''2W'', ''3W'', ''4W''] = [''2W'', ''3W'', ''4W'']"
    by (simp add: normalize_category_canonical)
  show "normalize_category ''TWO WHEELER'' = normalize_category ''2W''"
    by code_simp
  show "clean_data iso_date alias_rows = Inr alias_rows_clean"
    by code_simp
  show "calculate_growth_metrics alias_rows_clean ''date'' ''registrations'' ''category''
          = Inr ([growth_row (2023, 1) ''2W'' 150 NaN],
                 [growth_row 2023 ''2W'' 150 NaN],
                 [growth_row (2023, 1) ''2W'' 150 NaN])"
    by code_simp
qed


text \<open>
  Claim C10. The manufacturer normalisation of \<^verbatim>\<open>clean_data\<close>
  (\<^verbatim>\<open>str.title\<close>, then the replacement of the aliases) is not idempotent: it
  maps \<^verbatim>\<open>Hero\<close> to the canonical \<^verbatim>\<open>Hero MotoCorp\<close>, and the canonical name
  to \<^verbatim>\<open>Hero Motocorp\<close>, which is no alias and stays. Cleaning a cleaned table
  changes its manufacturer column, and cleaning a cleaned row together with a new row
  of the same manufacturer puts the two into different groups of the growth tables.
\<close>

theorem manufacturer_normalization_not_idempotent:
  "normalize_manufacturer ''Hero'' = ''Hero MotoCorp''
   \<and> normalize_manufacturer ''Hero MotoCorp'' = ''Hero Motocorp''
   \<and> normalize_manufacturer (normalize_manufacturer ''Hero'') \<noteq> normalize_manufacturer ''Hero''
   \<and> map_of manufacturer_aliases ''Hero Motocorp'' = None
   \<and> normalize_manufacturer ''Hero Motocorp'' = ''Hero Motocorp''
   \<and> clean_data iso_date hero_raw = Inr hero_clean
   \<and> clean_data iso_date hero_clean = Inr hero_recleaned
   \<and> hero_recleaned \<noteq> hero_clean
   \<and> clean_data iso_date (concat_frames [hero_clean, hero_next]) = Inr hero_merged
   \<and> calculate_growth_metrics hero_merged ''date'' ''registrations'' ''manufacturer''
       = Inr ([growth_row (2023, 1) ''Hero MotoCorp'' 50 NaN,
               growth_row (2023, 1) ''Hero Motocorp'' 100 NaN],
              [growth_row 2023 ''Hero MotoCorp'' 50 NaN,
               growth_row 2023 ''Hero Motocorp'' 100 NaN],
              [growth_row (2023, 1) ''Hero MotoCorp'' 50 NaN,
               growth_row (2023, 1) ''Hero Motocorp'' 100 NaN])"
  by code_simp


section \<open>Loading the data files\<close>








end
